theory Spec2Isabelle
  imports Main "HOL-Library.Sublist" "HOL-Library.Char_ord" "HOL-Library.List_Lexorder"
begin

section \<open>Python values, errors and dictionaries\<close>

text \<open>
  The option values that travel through \<^verbatim>\<open>Options\<close>, \<^verbatim>\<open>Configuration\<close> and the adapter are
  dynamically typed. They are modelled by the value shapes the code tests for: \<^verbatim>\<open>None\<close>,
  booleans, integers, strings, lists and dictionaries with string keys. Floats and
  user-defined objects are not modelled.
\<close>

datatype pyval =
    PNone
  | PBool bool
  | PInt int
  | PStr string
  | PList "pyval list"
  | PDict "(string \<times> pyval) list"

text \<open>
  Every exception the modelled code can raise is a value. \<open>TransportError\<close> stands for
  whatever the real transport raises during a live call.
\<close>

datatype error =
    BetamaxError string
  | KeyError string
  | TypeError
  | AttributeError
  | IndexError
  | OverflowError
  | ValueError string
  | TransportError string

text \<open>
  A dictionary is an association list in insertion order; its keys are pairwise distinct
  (\<open>distinct (map fst d)\<close>). Assigning to a key that is present keeps its position,
  assigning to a new key appends, as Python's dictionaries do.
\<close>

type_synonym 'v dict = "(string \<times> 'v) list"

fun dict_set :: "'v dict \<Rightarrow> string \<Rightarrow> 'v \<Rightarrow> 'v dict" where
  "dict_set [] k v = [(k, v)]"
| "dict_set ((k', v') # d) k v =
     (if k' = k then (k, v) # d else (k', v') # dict_set d k v)"

text \<open>\<^verbatim>\<open>d.update(pairs)\<close>: the pairs are assigned one after the other.\<close>

definition dict_update :: "'v dict \<Rightarrow> (string \<times> 'v) list \<Rightarrow> 'v dict" where
  "dict_update d kvs = foldl (\<lambda>acc (k, v). dict_set acc k v) d kvs"

text \<open>\<^verbatim>\<open>del d[k]\<close> raises \<^verbatim>\<open>KeyError\<close> when the key is absent.\<close>

definition dict_del :: "'v dict \<Rightarrow> string \<Rightarrow> error + 'v dict" where
  "dict_del d k =
     (if map_of d k = None then Inl (KeyError k)
      else Inr (filter (\<lambda>kv. fst kv \<noteq> k) d))"

text \<open>\<^verbatim>\<open>d.get(k, default)\<close>.\<close>

definition dict_get_default :: "'v dict \<Rightarrow> string \<Rightarrow> 'v \<Rightarrow> 'v" where
  "dict_get_default d k dflt = (case map_of d k of None \<Rightarrow> dflt | Some v \<Rightarrow> v)"

text \<open>Truth value of a Python value, as \<^verbatim>\<open>if v:\<close> tests it.\<close>

fun truthy :: "pyval \<Rightarrow> bool" where
  "truthy PNone = False"
| "truthy (PBool b) = b"
| "truthy (PInt n) = (n \<noteq> 0)"
| "truthy (PStr s) = (s \<noteq> [])"
| "truthy (PList xs) = (xs \<noteq> [])"
| "truthy (PDict d) = (d \<noteq> [])"

text \<open>
  \<^verbatim>\<open>for x in v\<close>: a list yields its items, a string its one-character strings, a
  dictionary its keys; anything else is not iterable.
\<close>

fun py_iter :: "pyval \<Rightarrow> error + pyval list" where
  "py_iter (PList xs) = Inr xs"
| "py_iter (PStr s) = Inr (map (\<lambda>c. PStr [c]) s)"
| "py_iter (PDict d) = Inr (map (\<lambda>kv. PStr (fst kv)) d)"
| "py_iter v = Inl TypeError"

text \<open>
  \<^verbatim>\<open>all(p(x) for x in xs)\<close>: stops at the first false item; an exception raised by
  \<open>p\<close> before that propagates.
\<close>

fun py_all :: "('a \<Rightarrow> error + bool) \<Rightarrow> 'a list \<Rightarrow> error + bool" where
  "py_all p [] = Inr True"
| "py_all p (x # xs) =
     (case p x of
        Inl e \<Rightarrow> Inl e
      | Inr b \<Rightarrow> if b then py_all p xs else Inr False)"

text \<open>\<^verbatim>\<open>v in names\<close> for a list of strings: only an equal string is a member.\<close>

fun str_in :: "pyval \<Rightarrow> string list \<Rightarrow> bool" where
  "str_in (PStr s) names = (s \<in> set names)"
| "str_in v names = False"

section \<open>Process-wide state\<close>

text \<open>
  The globals the code reads and writes: \<^verbatim>\<open>Configuration.CASSETTE_LIBRARY_DIR\<close>,
  \<^verbatim>\<open>Cassette.default_cassette_options\<close> (typed as a dictionary, which every use in the
  code requires), and the names registered in the matcher and serializer registries.
  The dictionary bound to \<^verbatim>\<open>Cassette.default_cassette_options\<close> is an object:
  \<open>default_cassette_options\<close> is its content and \<open>default_cassette_options_id\<close> its
  identity, so that editing the object (the identity stays) differs from binding the
  name to another object (the identity becomes that object's).
  The initial contents of the table and of the registries are set in cassette.py and in
  the matcher and serializer packages, so they are left open here.
\<close>

record globals =
  CASSETTE_LIBRARY_DIR :: pyval
  default_cassette_options :: "pyval dict"
  default_cassette_options_id :: nat
  matcher_registry :: "string list"
  serializer_registry :: "string list"

section \<open>options.py\<close>

definition validate_record :: "pyval \<Rightarrow> error + bool" where
  "validate_record r = Inr (str_in r [''all'', ''new_episodes'', ''none'', ''once''])"

definition validate_matchers :: "globals \<Rightarrow> pyval \<Rightarrow> error + bool" where
  "validate_matchers g matchers =
     (let available_matchers = matcher_registry g in
      case py_iter matchers of
        Inl e \<Rightarrow> Inl e
      | Inr ms \<Rightarrow> py_all (\<lambda>m. Inr (str_in m available_matchers)) ms)"

definition validate_serializer :: "globals \<Rightarrow> pyval \<Rightarrow> error + bool" where
  "validate_serializer g serializer = Inr (str_in serializer (serializer_registry g))"

text \<open>
  \<^verbatim>\<open>p.keys()\<close> exists on dictionaries only; \<^verbatim>\<open>sorted\<close> orders the keys as strings.
\<close>

fun placeholder_keys_ok :: "pyval \<Rightarrow> error + bool" where
  "placeholder_keys_ok (PDict d) = Inr (sort (map fst d) = [''placeholder'', ''replace''])"
| "placeholder_keys_ok v = Inl AttributeError"

definition validate_placeholders :: "pyval \<Rightarrow> error + bool" where
  "validate_placeholders placeholders =
     (case py_iter placeholders of
        Inl e \<Rightarrow> Inl e
      | Inr ps \<Rightarrow> py_all placeholder_keys_ok ps)"

text \<open>
  \<^verbatim>\<open>lambda x: x is None or x > 0\<close>. A boolean is an integer in Python; ordering a
  string, list or dictionary against \<open>0\<close> raises \<^verbatim>\<open>TypeError\<close> (Python 3).
\<close>

fun validate_re_record_interval :: "pyval \<Rightarrow> error + bool" where
  "validate_re_record_interval PNone = Inr True"
| "validate_re_record_interval (PInt n) = Inr (n > 0)"
| "validate_re_record_interval (PBool b) = Inr b"
| "validate_re_record_interval v = Inl TypeError"

text \<open>
  \<^verbatim>\<open>lambda x: x in [True, False]\<close>: membership is by \<^verbatim>\<open>==\<close>, so the integers \<open>1\<close>
  and \<open>0\<close> are members too.
\<close>

fun validate_preserve_exact_body_bytes :: "pyval \<Rightarrow> error + bool" where
  "validate_preserve_exact_body_bytes (PBool b) = Inr True"
| "validate_preserve_exact_body_bytes (PInt n) = Inr (n = 1 \<or> n = 0)"
| "validate_preserve_exact_body_bytes v = Inr False"

definition translate_cassette_options :: "globals \<Rightarrow> (string \<times> pyval) list" where
  "translate_cassette_options g =
     map (\<lambda>(k, v). if k \<noteq> ''record_mode'' then (k, v) else (''record'', v))
       (default_cassette_options g)"

definition valid_options :: "globals \<Rightarrow> (pyval \<Rightarrow> error + bool) dict" where
  "valid_options g =
     [(''match_requests_on'', validate_matchers g),
      (''re_record_interval'', validate_re_record_interval),
      (''record'', validate_record),
      (''serialize'', validate_serializer g),
      (''serialize_with'', validate_serializer g),
      (''preserve_exact_body_bytes'', validate_preserve_exact_body_bytes),
      (''placeholders'', validate_placeholders)]"

definition Options_defaults :: "pyval dict" where
  "Options_defaults =
     [(''match_requests_on'', PList [PStr ''method'', PStr ''uri'']),
      (''re_record_interval'', PNone),
      (''record'', PStr ''once''),
      (''serialize'', PNone),
      (''serialize_with'', PStr ''json''),
      (''preserve_exact_body_bytes'', PBool False),
      (''placeholders'', PList [])]"

record Options =
  data :: "pyval dict"
  defaults :: "pyval dict"

definition Options_getitem :: "Options \<Rightarrow> string \<Rightarrow> pyval" where
  "Options_getitem self key =
     dict_get_default (data self) key (dict_get_default (defaults self) key PNone)"

definition Options_setitem :: "Options \<Rightarrow> string \<Rightarrow> pyval \<Rightarrow> Options" where
  "Options_setitem self key v = self\<lparr>data := dict_set (data self) key v\<rparr>"

definition Options_delitem :: "pyval dict \<Rightarrow> string \<Rightarrow> error + pyval dict" where
  "Options_delitem d key = dict_del d key"

definition Options_contains :: "Options \<Rightarrow> string \<Rightarrow> bool" where
  "Options_contains self key = (map_of (data self) key \<noteq> None)"

definition Options_items :: "Options \<Rightarrow> (string \<times> pyval) list" where
  "Options_items self = data self"

text \<open>
  \<^verbatim>\<open>validate\<close> walks a snapshot of the items and deletes from the live dictionary
  \<open>d\<close>. It runs before \<^verbatim>\<open>self.defaults\<close> is assigned, so it works on the data alone.
\<close>

fun validate_loop :: "globals \<Rightarrow> (string \<times> pyval) list \<Rightarrow> pyval dict \<Rightarrow> error + pyval dict" where
  "validate_loop g [] d = Inr d"
| "validate_loop g ((key, v) # items) d =
     (case map_of (valid_options g) key of
        None \<Rightarrow>
          (case Options_delitem d key of
             Inl e \<Rightarrow> Inl e
           | Inr d' \<Rightarrow> validate_loop g items d')
      | Some is_valid \<Rightarrow>
          (case is_valid v of
             Inl e \<Rightarrow> Inl e
           | Inr ok \<Rightarrow>
               if \<not> ok then
                 (case Options_delitem d key of
                    Inl e \<Rightarrow> Inl e
                  | Inr d' \<Rightarrow> validate_loop g items d')
               else validate_loop g items d))"

definition Options_validate :: "globals \<Rightarrow> pyval dict \<Rightarrow> error + pyval dict" where
  "Options_validate g d = validate_loop g d d"

text \<open>
  \<^verbatim>\<open>Options(data)\<close>: \<^verbatim>\<open>data or {}\<close> is the given dictionary (an empty one is
  replaced by a fresh empty one), then \<^verbatim>\<open>validate()\<close>, then the defaults: a copy of
  the class table overlaid with the translated process-wide table.
\<close>

definition Options_init :: "globals \<Rightarrow> pyval dict \<Rightarrow> error + Options" where
  "Options_init g d =
     (case Options_validate g d of
        Inl e \<Rightarrow> Inl e
      | Inr d' \<Rightarrow>
          Inr \<lparr>data = d',
               defaults = dict_update Options_defaults (translate_cassette_options g)\<rparr>)"

text \<open>
  An entry passes validation when its key is in the registry and the key's predicate
  returns true on its value.
\<close>

definition accepted :: "globals \<Rightarrow> string \<Rightarrow> pyval \<Rightarrow> bool" where
  "accepted g key v =
     (case map_of (valid_options g) key of
        None \<Rightarrow> False
      | Some is_valid \<Rightarrow> is_valid v = Inr True)"

text \<open>
  When a predicate of the registry raises. \<^verbatim>\<open>validate_matchers\<close> raises when its value
  cannot be iterated. \<^verbatim>\<open>validate_placeholders\<close> raises when its value cannot be iterated,
  or when iterating it reaches an item without \<^verbatim>\<open>keys()\<close> before \<^verbatim>\<open>all\<close> has stopped at
  an item with other keys than \<^verbatim>\<open>placeholder\<close> and \<^verbatim>\<open>replace\<close>. The predicate of
  \<^verbatim>\<open>re_record_interval\<close> raises on a value that is neither \<^verbatim>\<open>None\<close> nor a number. The
  other predicates never raise.
\<close>

fun iterable :: "pyval \<Rightarrow> bool" where
  "iterable (PList xs) = True"
| "iterable (PStr s) = True"
| "iterable (PDict d) = True"
| "iterable v = False"

fun reaches_non_mapping :: "pyval list \<Rightarrow> bool" where
  "reaches_non_mapping [] = False"
| "reaches_non_mapping (PDict d # ps) =
     (sort (map fst d) = [''placeholder'', ''replace''] \<and> reaches_non_mapping ps)"
| "reaches_non_mapping (p # ps) = True"

fun is_number_or_None :: "pyval \<Rightarrow> bool" where
  "is_number_or_None PNone = True"
| "is_number_or_None (PInt n) = True"
| "is_number_or_None (PBool b) = True"
| "is_number_or_None v = False"

definition predicate_raises :: "string \<Rightarrow> pyval \<Rightarrow> bool" where
  "predicate_raises key v =
     (if key = ''match_requests_on'' then \<not> iterable v
      else if key = ''placeholders'' then
        (case py_iter v of Inl e \<Rightarrow> True | Inr ps \<Rightarrow> reaches_non_mapping ps)
      else if key = ''re_record_interval'' then \<not> is_number_or_None v
      else False)"

section \<open>configure.py\<close>

text \<open>
  A \<^verbatim>\<open>Configuration\<close> instance has no state of its own that the code reads: its
  properties read and write the globals.
\<close>

definition Configuration_cassette_library_dir :: "globals \<Rightarrow> pyval" where
  "Configuration_cassette_library_dir g = CASSETTE_LIBRARY_DIR g"

definition Configuration_default_cassette_options :: "globals \<Rightarrow> pyval dict" where
  "Configuration_default_cassette_options g = default_cassette_options g"

definition cassette_library_dir_setter :: "pyval \<Rightarrow> globals \<Rightarrow> globals" where
  "cassette_library_dir_setter v g = g\<lparr>CASSETTE_LIBRARY_DIR := v\<rparr>"

text \<open>
  The setter binds the class attribute to the assigned dictionary, an object with the
  identity \<open>oid\<close> and the content \<open>v\<close>.
\<close>

definition default_cassette_options_setter :: "nat \<Rightarrow> pyval dict \<Rightarrow> globals \<Rightarrow> globals" where
  "default_cassette_options_setter oid v g =
     g\<lparr>default_cassette_options := v, default_cassette_options_id := oid\<rparr>"

text \<open>
  \<^verbatim>\<open>__setattr__\<close>; \<open>oid\<close> is the identity of the assigned object and \<open>v\<close> its value.
  Any other attribute goes to \<^verbatim>\<open>object.__setattr__\<close>, which calls the property setter
  when the class has one and otherwise stores an instance attribute that nothing
  reads. The table is typed as a dictionary, so assigning a value of another shape to
  \<^verbatim>\<open>default_cassette_options\<close> is outside the model: the result is \<open>None\<close> there.
\<close>

definition Configuration_setattr ::
  "string \<Rightarrow> nat \<Rightarrow> pyval \<Rightarrow> globals \<Rightarrow> globals option" where
  "Configuration_setattr prop oid v g =
     (if prop = ''preserve_exact_body_bytes'' then
        Some (g\<lparr>default_cassette_options :=
                  dict_set (Configuration_default_cassette_options g) prop (PBool True)\<rparr>)
      else if prop = ''cassette_library_dir'' then Some (cassette_library_dir_setter v g)
      else if prop = ''default_cassette_options'' then
        (case v of PDict d \<Rightarrow> Some (default_cassette_options_setter oid d g) | _ \<Rightarrow> None)
      else Some g)"

text \<open>
  \<^verbatim>\<open>define_cassette_placeholder\<close>: the subscript raises \<^verbatim>\<open>KeyError\<close> when the table
  has no \<^verbatim>\<open>placeholders\<close> entry, and \<^verbatim>\<open>append\<close> exists on lists only. The list is
  extended in place; the model stores the extended list back.
\<close>

definition define_cassette_placeholder :: "pyval \<Rightarrow> pyval \<Rightarrow> globals \<Rightarrow> error + globals" where
  "define_cassette_placeholder placeholder replace g =
     (case map_of (Configuration_default_cassette_options g) ''placeholders'' of
        None \<Rightarrow> Inl (KeyError ''placeholders'')
      | Some (PList ps) \<Rightarrow>
          Inr (g\<lparr>default_cassette_options :=
                   dict_set (default_cassette_options g) ''placeholders''
                     (PList (ps @ [PDict [(''placeholder'', placeholder),
                                          (''replace'', replace)]]))\<rparr>)
      | Some _ \<Rightarrow> Inl AttributeError)"

section \<open>What the adapter uses from the host library and from cassette.py\<close>

text \<open>
  Objects that are compared or stored by reference (the transport adapters mounted on a
  session, and the interception adapter itself) carry an identity.
\<close>

datatype adapter_ref = AdapterRef nat

record request =
  http_method :: string
  url :: string

record response =
  status_code :: int
  body :: string
  connection :: "adapter_ref option"

text \<open>
  The fields of a \<^verbatim>\<open>Cassette\<close> that adapter.py reads or assigns. The class is defined
  in cassette.py: the type \<open>'i\<close> of its interactions and the rest of its state
  (\<open>rest\<close>) are left open.
\<close>

record ('i, 'c) Cassette =
  cassette_name :: string
  record_mode :: pyval
  match_options :: pyval
  interactions :: "'i list"
  rest :: 'c

text \<open>
  Everything else the adapter and the recorder call is a parameter: the constructor and
  the methods of \<^verbatim>\<open>Cassette\<close> and \<^verbatim>\<open>Interaction\<close> (taken to return without raising, the
  constructor apart), the \<^verbatim>\<open>send\<close> of a real transport adapter, and Python's formatting
  of a value inside \<^verbatim>\<open>str.format\<close>. \<open>make_interaction\<close> stands for building the stored
  interaction from a live response and its request, redaction included.
\<close>

record ('i, 'c) env =
  Cassette_init ::
    "string \<Rightarrow> pyval \<Rightarrow> pyval \<Rightarrow> pyval \<Rightarrow> pyval \<Rightarrow> pyval \<Rightarrow> error + ('i, 'c) Cassette"
  can_be_loaded :: "pyval \<Rightarrow> string \<Rightarrow> pyval \<Rightarrow> pyval \<Rightarrow> bool"
  find_match :: "('i, 'c) Cassette \<Rightarrow> request \<Rightarrow> 'i option"
  is_recording :: "('i, 'c) Cassette \<Rightarrow> bool"
  make_interaction :: "('i, 'c) Cassette \<Rightarrow> response \<Rightarrow> request \<Rightarrow> 'i"
  as_response :: "'i \<Rightarrow> response"
  earliest_recorded_date :: "('i, 'c) Cassette \<Rightarrow> int"
  transport_send :: "adapter_ref \<Rightarrow> request \<Rightarrow> error + response"
  format_value :: "pyval \<Rightarrow> string"

text \<open>
  Calls that leave the adapter are recorded as events, in the order they are made, so
  that a statement can say which of them happened.
\<close>

datatype event =
    FindMatch request
  | TransportSend adapter_ref request
  | SaveInteraction request
  | CassetteEject string
  | CassetteClear string
  | HTTPAdapterClose

text \<open>
  Modelled from the spec: \<^verbatim>\<open>Cassette.save_interaction\<close> (cassette.py) is missing; the
  spec says it constructs an Interaction from the live response/request pair, redacts
  it, and appends it to \<^verbatim>\<open>interactions\<close>.
\<close>

definition Cassette_save_interaction ::
  "('i, 'c) env \<Rightarrow> ('i, 'c) Cassette \<Rightarrow> response \<Rightarrow> request \<Rightarrow> ('i, 'c) Cassette" where
  "Cassette_save_interaction e c resp req =
     c\<lparr>interactions := interactions c @ [make_interaction e c resp req]\<rparr>"

text \<open>
  Modelled from the spec: \<^verbatim>\<open>Cassette.clear\<close> (cassette.py) is missing; the spec says
  the entire interaction collection is cleared.
\<close>

definition Cassette_clear :: "('i, 'c) Cassette \<Rightarrow> ('i, 'c) Cassette" where
  "Cassette_clear c = c\<lparr>interactions := []\<rparr>"

text \<open>
  Modelled from the spec: the file a cassette is stored in (cassette.py) is missing; the
  spec says its storage path is derived from a library directory, the name and the
  serializer's extension.
\<close>

definition Cassette_storage_path :: "string \<Rightarrow> string \<Rightarrow> string \<Rightarrow> string" where
  "Cassette_storage_path library_dir name extension =
     library_dir @ ''/'' @ name @ ''.'' @ extension"

text \<open>
  Times are counted in microseconds. A \<^verbatim>\<open>datetime\<close> lies between year 1 and the end of
  year 9999, which is 3652059 days; a \<^verbatim>\<open>timedelta\<close> has at most 999999999 days.
\<close>

definition microseconds_per_day :: int where
  "microseconds_per_day = 86400000000"

definition valid_datetime :: "int \<Rightarrow> bool" where
  "valid_datetime t = (0 \<le> t \<and> t < 3652059 * microseconds_per_day)"

definition timedelta_max :: int where
  "timedelta_max = 999999999 * microseconds_per_day + 86399999999"

text \<open>
  \<^verbatim>\<open>timedelta(v)\<close>: the single positional argument is a number of days. A float number
  of days is accepted by Python too; floats are not among the modelled values.
\<close>

fun timedelta :: "pyval \<Rightarrow> error + int" where
  "timedelta (PInt n) =
     (if \<bar>n\<bar> > 999999999 then Inl OverflowError else Inr (n * microseconds_per_day))"
| "timedelta (PBool b) = Inr (if b then microseconds_per_day else 0)"
| "timedelta v = Inl TypeError"

section \<open>adapter.py\<close>

record ('i, 'c) BetamaxAdapter =
  self_ref :: adapter_ref
  cassette :: "('i, 'c) Cassette option"
  adapter_cassette_name :: "string option"
  old_adapters :: "adapter_ref dict"
  serialize :: pyval
  options :: "pyval dict"

definition BetamaxAdapter_init :: "adapter_ref \<Rightarrow> adapter_ref dict \<Rightarrow> ('i, 'c) BetamaxAdapter" where
  "BetamaxAdapter_init r old =
     \<lparr>self_ref = r, cassette = None, adapter_cassette_name = None, old_adapters = old,
      serialize = PNone, options = []\<rparr>"

text \<open>\<^verbatim>\<open>close\<close> closes the inner \<^verbatim>\<open>HTTPAdapter\<close> and touches nothing else.\<close>

definition BetamaxAdapter_close :: "('i, 'c) BetamaxAdapter \<Rightarrow> ('i, 'c) BetamaxAdapter \<times> event list" where
  "BetamaxAdapter_close self = (self, [HTTPAdapterClose])"

text \<open>
  \<^verbatim>\<open>eject_cassette\<close>: a loaded cassette (an object, hence true in \<^verbatim>\<open>if self.cassette\<close>)
  is told to eject, and the field is reset in either case.
\<close>

definition eject_cassette :: "('i, 'c) BetamaxAdapter \<Rightarrow> ('i, 'c) BetamaxAdapter \<times> event list" where
  "eject_cassette self =
     (self\<lparr>cassette := None\<rparr>,
      (case cassette self of None \<Rightarrow> [] | Some c \<Rightarrow> [CassetteEject (cassette_name c)]))"

text \<open>
  \<^verbatim>\<open>str.lower\<close> on a URL. The URL of a prepared request is ASCII (other characters are
  percent-encoded when the request is prepared), and on ASCII \<^verbatim>\<open>str.lower\<close> changes
  \<open>A\<close> to \<open>Z\<close> into \<open>a\<close> to \<open>z\<close> and nothing else.
\<close>

definition lower_char :: "char \<Rightarrow> char" where
  "lower_char c =
     (let n = (of_char c :: nat) in if 65 \<le> n \<and> n \<le> 90 then char_of (n + 32) else c)"

definition lower :: "string \<Rightarrow> string" where
  "lower s = map lower_char s"

text \<open>
  \<^verbatim>\<open>find_adapter\<close>: the first item of \<^verbatim>\<open>old_adapters\<close>, in the dictionary's order,
  whose prefix the lowercased URL starts with. Falling off the loop returns \<^verbatim>\<open>None\<close>.
\<close>

fun find_adapter_loop :: "adapter_ref dict \<Rightarrow> string \<Rightarrow> adapter_ref option" where
  "find_adapter_loop [] u = None"
| "find_adapter_loop ((pre, adapter) # items) u =
     (if prefix pre (lower u) then Some adapter else find_adapter_loop items u)"

definition find_adapter :: "('i, 'c) BetamaxAdapter \<Rightarrow> string \<Rightarrow> adapter_ref option" where
  "find_adapter self u = find_adapter_loop (old_adapters self) u"

text \<open>
  The selection as the specification words it: among the preserved handlers whose prefix
  the lowercased URL starts with, the one with the longest prefix.
\<close>

definition longest_prefix_adapter :: "adapter_ref dict \<Rightarrow> string \<Rightarrow> adapter_ref option" where
  "longest_prefix_adapter old u =
     (case filter (\<lambda>item. prefix (fst item) (lower u)) old of
        [] \<Rightarrow> None
      | m # ms \<Rightarrow>
          Some (snd (foldl (\<lambda>best item. if length (fst best) < length (fst item) then item else best)
                       m ms)))"

definition newline :: string where
  "newline = [CHR 0x0A]"

definition unhandled_request_message ::
  "('i, 'c) env \<Rightarrow> request \<Rightarrow> ('i, 'c) Cassette \<Rightarrow> string" where
  "unhandled_request_message e req c =
     ''A request was made that could not be handled.'' @ newline @ newline @
     ''A request was made to '' @ url req @
     '' that could not be found in '' @ cassette_name c @ ''.'' @ newline @ newline @
     ''The settings on the cassette are:'' @ newline @ newline @
     ''    - record_mode: '' @ format_value e (record_mode c) @ newline @
     ''    - match_options '' @ format_value e (match_options c) @ ''.'' @ newline"

text \<open>
  \<^verbatim>\<open>send_and_record\<close>. A \<^verbatim>\<open>None\<close> from \<^verbatim>\<open>find_adapter\<close> has no \<^verbatim>\<open>send\<close>, and
  \<^verbatim>\<open>interactions[-1]\<close> raises on an empty list. The live call is made with
  \<^verbatim>\<open>stream=True\<close>; the other keyword arguments are passed through and play no part.
\<close>

definition send_and_record ::
  "('i, 'c) env \<Rightarrow> ('i, 'c) BetamaxAdapter \<Rightarrow> request
     \<Rightarrow> (error + 'i) \<times> ('i, 'c) BetamaxAdapter \<times> event list" where
  "send_and_record e self req =
     (case find_adapter self (url req) of
        None \<Rightarrow> (Inl AttributeError, self, [])
      | Some adapter \<Rightarrow>
          (case transport_send e adapter req of
             Inl err \<Rightarrow> (Inl err, self, [TransportSend adapter req])
           | Inr resp \<Rightarrow>
               (case cassette self of
                  None \<Rightarrow> (Inl AttributeError, self, [TransportSend adapter req])
                | Some c \<Rightarrow>
                    let c' = Cassette_save_interaction e c resp req;
                        self' = self\<lparr>cassette := Some c'\<rparr>;
                        evs = [TransportSend adapter req, SaveInteraction req]
                    in if interactions c' = [] then (Inl IndexError, self', evs)
                       else (Inr (last (interactions c')), self', evs))))"

text \<open>
  \<^verbatim>\<open>send\<close>. An interaction is an object, hence true in \<^verbatim>\<open>if not interaction\<close>; only
  \<^verbatim>\<open>None\<close> is a miss.
\<close>

definition send ::
  "('i, 'c) env \<Rightarrow> ('i, 'c) BetamaxAdapter \<Rightarrow> request
     \<Rightarrow> (error + response) \<times> ('i, 'c) BetamaxAdapter \<times> event list" where
  "send e self req =
     (case cassette self of
        None \<Rightarrow> (Inl (BetamaxError ''No cassette was specified or found.''), self, [])
      | Some c \<Rightarrow>
          let looked_up = (interactions c \<noteq> []);
              interaction = (if looked_up then find_match e c req else None);
              evs = (if looked_up then [FindMatch req] else [])
          in (case interaction of
                Some i \<Rightarrow> (Inr ((as_response e i)\<lparr>connection := Some (self_ref self)\<rparr>), self, evs)
              | None \<Rightarrow>
                  if is_recording e c then
                    (case send_and_record e self req of
                       (Inl err, self', evs') \<Rightarrow> (Inl err, self', evs @ evs')
                     | (Inr i, self', evs') \<Rightarrow>
                         (Inr ((as_response e i)\<lparr>connection := Some (self_ref self)\<rparr>),
                          self', evs @ evs'))
                  else (Inl (BetamaxError (unhandled_request_message e req c)), self, evs)))"

text \<open>
  \<^verbatim>\<open>load_cassette\<close>. The given options are merged into the adapter's own table, which
  outlives the call. The default of \<^verbatim>\<open>match_requests_on\<close> is subscripted from the
  process-wide table before the lookup, so a table without that key raises. \<open>now\<close> is
  the value of \<^verbatim>\<open>datetime.utcnow()\<close>.
\<close>

definition load_cassette ::
  "('i, 'c) env \<Rightarrow> globals \<Rightarrow> int \<Rightarrow> ('i, 'c) BetamaxAdapter \<Rightarrow> string \<Rightarrow> pyval \<Rightarrow> Options
     \<Rightarrow> (error + unit) \<times> ('i, 'c) BetamaxAdapter \<times> event list" where
  "load_cassette e g now self name ser opts =
     (let self1 = self\<lparr>adapter_cassette_name := Some name, serialize := ser,
                       options := dict_update (options self) (Options_items opts)\<rparr>;
          placeholders = dict_get_default (options self1) ''placeholders'' (PList [])
      in (case map_of (default_cassette_options g) ''match_requests_on'' of
            None \<Rightarrow> (Inl (KeyError ''match_requests_on''), self1, [])
          | Some dflt \<Rightarrow>
              (let match_requests_on = dict_get_default (options self1) ''match_requests_on'' dflt;
                   preserve_exact_body_bytes =
                     dict_get_default (options self1) ''preserve_exact_body_bytes'' PNone
               in (case Cassette_init e name ser placeholders
                          (dict_get_default (options self1) ''record'' PNone)
                          preserve_exact_body_bytes
                          (dict_get_default (options self1) ''cassette_library_dir'' PNone) of
                     Inl err \<Rightarrow> (Inl err, self1, [])
                   | Inr c0 \<Rightarrow>
                       (let c1 = (case map_of (options self1) ''record'' of
                                    None \<Rightarrow> c0
                                  | Some r \<Rightarrow> c0\<lparr>record_mode := r\<rparr>);
                            c2 = c1\<lparr>match_options := match_requests_on\<rparr>;
                            self2 = self1\<lparr>cassette := Some c2\<rparr>;
                            interval =
                              (if truthy (dict_get_default (options self1) ''re_record_interval'' PNone)
                               then (case map_of (options self1) ''re_record_interval'' of
                                       None \<Rightarrow> Inl (KeyError ''re_record_interval'')
                                     | Some v \<Rightarrow> timedelta v)
                               else Inr timedelta_max)
                        in (case interval of
                              Inl err \<Rightarrow> (Inl err, self2, [])
                            | Inr re_record_interval \<Rightarrow>
                                (if re_record_interval < now - earliest_recorded_date e c2 then
                                   (Inr (), self2\<lparr>cassette := Some (Cassette_clear c2)\<rparr>,
                                    [CassetteClear (cassette_name c2)])
                                 else (Inr (), self2, []))))))))"

text \<open>
  The interval a table of options configures, in days, when it holds a true value for
  \<^verbatim>\<open>re_record_interval\<close>: an integer other than \<open>0\<close>, or \<^verbatim>\<open>True\<close>, which counts as
  \<open>1\<close>. \<^verbatim>\<open>None\<close>, \<open>0\<close>, \<^verbatim>\<open>False\<close> and a missing key configure none.
\<close>

definition configured_days :: "pyval dict \<Rightarrow> int option" where
  "configured_days d =
     (case map_of d ''re_record_interval'' of
        Some (PInt n) \<Rightarrow> if n \<noteq> 0 then Some n else None
      | Some (PBool b) \<Rightarrow> if b then Some 1 else None
      | _ \<Rightarrow> None)"

section \<open>recorder.py\<close>

text \<open>
  The client session is the ordered dictionary of its mounted adapters. \<^verbatim>\<open>mount\<close>
  belongs to the host library (requests, \<^verbatim>\<open>Session.mount\<close>): it assigns the adapter to
  the prefix and then moves every key shorter than the prefix to the end, one after the
  other in the dictionary's order, by \<^verbatim>\<open>self.adapters[key] = self.adapters.pop(key)\<close>.
  The keys moved are keys of the dictionary, so \<^verbatim>\<open>pop\<close> finds each of them.
\<close>

type_synonym session = "adapter_ref dict"

definition dict_move_to_end :: "'v dict \<Rightarrow> string \<Rightarrow> 'v dict" where
  "dict_move_to_end d key =
     (case map_of d key of
        None \<Rightarrow> d
      | Some v \<Rightarrow> dict_set (filter (\<lambda>kv. fst kv \<noteq> key) d) key v)"

definition mount :: "session \<Rightarrow> string \<Rightarrow> adapter_ref \<Rightarrow> session" where
  "mount s pre adapter =
     (let s1 = dict_set s pre adapter;
          keys_to_move = filter (\<lambda>k. length k < length pre) (map fst s1)
      in foldl dict_move_to_end s1 keys_to_move)"

text \<open>
  A session's table comes about by mounting: \<^verbatim>\<open>Session()\<close> starts from an empty
  dictionary and mounts its two default adapters, and the user mounts more.
\<close>

definition session_of :: "(string \<times> adapter_ref) list \<Rightarrow> session" where
  "session_of mounts = foldl (\<lambda>s (k, adapter). mount s k adapter) [] mounts"

record ('i, 'c) Betamax =
  http_adapters :: "adapter_ref dict"
  betamax_adapter :: "('i, 'c) BetamaxAdapter"

text \<open>
  \<^verbatim>\<open>Betamax(session, cassette_library_dir, default_cassette_options)\<close>; \<open>r\<close> is the
  identity of the adapter object it creates. The session is not changed here.
\<close>

definition Betamax_init ::
  "globals \<Rightarrow> session \<Rightarrow> adapter_ref \<Rightarrow> pyval \<Rightarrow> pyval dict \<Rightarrow> ('i, 'c) Betamax \<times> globals" where
  "Betamax_init g s r cassette_library_dir dco =
     (let self = \<lparr>http_adapters = s, betamax_adapter = BetamaxAdapter_init r s\<rparr>;
          g1 = g\<lparr>default_cassette_options :=
                   dict_update (Configuration_default_cassette_options g) dco\<rparr>
      in (self, if truthy cassette_library_dir
                then cassette_library_dir_setter cassette_library_dir g1 else g1))"

definition start :: "('i, 'c) Betamax \<Rightarrow> session \<Rightarrow> session" where
  "start self s =
     foldl (\<lambda>acc k. mount acc k (self_ref (betamax_adapter self))) s (map fst (http_adapters self))"

definition stop :: "('i, 'c) Betamax \<Rightarrow> session \<Rightarrow> ('i, 'c) Betamax \<times> session \<times> event list" where
  "stop self s =
     (let (a1, evs1) = eject_cassette (betamax_adapter self);
          (a2, evs2) = BetamaxAdapter_close a1
      in (self\<lparr>betamax_adapter := a2\<rparr>,
          foldl (\<lambda>acc (k, v). mount acc k v) s (http_adapters self),
          evs1 @ evs2))"

text \<open>
  \<^verbatim>\<open>use_cassette(cassette_name, **kwargs)\<close>. \<^verbatim>\<open>a or b\<close> is \<open>a\<close> when \<open>a\<close> is true, else
  \<open>b\<close>. The library directory is stored into the validated options after validation.
\<close>

definition use_cassette ::
  "('i, 'c) env \<Rightarrow> globals \<Rightarrow> int \<Rightarrow> ('i, 'c) Betamax \<Rightarrow> string \<Rightarrow> pyval dict
     \<Rightarrow> (error + unit) \<times> ('i, 'c) Betamax \<times> event list" where
  "use_cassette e g now self name kwargs =
     (case Options_init g kwargs of
        Inl err \<Rightarrow> (Inl err, self, [])
      | Inr validated \<Rightarrow>
          (let ser = (if truthy (Options_getitem validated ''serialize'')
                      then Options_getitem validated ''serialize''
                      else Options_getitem validated ''serialize_with'');
               opts = Options_setitem validated ''cassette_library_dir''
                        (Configuration_cassette_library_dir g);
               can_load = can_be_loaded e (Configuration_cassette_library_dir g) name ser
                            (Options_getitem opts ''record'')
           in (if can_load then
                 (case load_cassette e g now (betamax_adapter self) name ser opts of
                    (res, a, evs) \<Rightarrow> (res, self\<lparr>betamax_adapter := a\<rparr>, evs))
               else (Inl (ValueError ''Cassette must have a valid name and may not be None.''),
                     self, []))))"

section \<open>Reading the process-wide table later\<close>

text \<open>
  \<^verbatim>\<open>Options\<close> shows the \<^verbatim>\<open>record_mode\<close> entry of the table under the key \<^verbatim>\<open>record\<close>, and
  every other entry under its own key.
\<close>

definition Options_key :: "string \<Rightarrow> string" where
  "Options_key k = (if k = ''record_mode'' then ''record'' else k)"

text \<open>
  What it means that the entry \<open>k\<close> with value \<open>v\<close> of the table is seen by everything
  created in the state \<open>g\<close>: a \<^verbatim>\<open>Configuration\<close> (also the one inside a \<^verbatim>\<open>Betamax\<close>)
  reads it from the table, and every \<^verbatim>\<open>Options\<close> built in that state has \<open>v\<close> in its
  defaults under the key it shows \<open>k\<close> under, and returns \<open>v\<close> for that key unless it
  holds an explicit value for it.
\<close>

definition seen_later :: "globals \<Rightarrow> string \<Rightarrow> pyval \<Rightarrow> bool" where
  "seen_later g k v \<longleftrightarrow>
     map_of (Configuration_default_cassette_options g) k = Some v
     \<and> (\<forall>d opts. Options_init g d = Inr opts \<longrightarrow>
           map_of (defaults opts) (Options_key k) = Some v
           \<and> (\<not> Options_contains opts (Options_key k)
                \<longrightarrow> Options_getitem opts (Options_key k) = v))"

section \<open>A concrete instance\<close>

text \<open>
  A small instance of the parameters, on which the theorems below are evaluated: an
  interaction is a recorded request with its response, a request matches a recording
  of the same request, every mode but \<^verbatim>\<open>none\<close> records, and a cassette is loaded
  with one recording made at the earliest possible date.
\<close>

definition example_request :: request where
  "example_request = \<lparr>http_method = ''GET'', url = ''http://example.test/''\<rparr>"

definition other_request :: request where
  "other_request = \<lparr>http_method = ''GET'', url = ''http://example.test/other''\<rparr>"

definition example_cassette :: "pyval \<Rightarrow> (request \<times> response, unit) Cassette" where
  "example_cassette mode =
     \<lparr>cassette_name = ''example'', record_mode = mode,
      match_options = PList [PStr ''method'', PStr ''uri''],
      interactions = [(other_request, \<lparr>status_code = 404, body = [], connection = None\<rparr>)],
      rest = ()\<rparr>"

text \<open>
  Strings, \<^verbatim>\<open>None\<close>, booleans and lists of plain strings, formatted as Python formats
  them.
\<close>

fun example_format_item :: "pyval \<Rightarrow> string" where
  "example_format_item (PStr s) = [CHR 0x27] @ s @ [CHR 0x27]"
| "example_format_item v = ''?''"

fun example_format_items :: "pyval list \<Rightarrow> string" where
  "example_format_items [] = []"
| "example_format_items [x] = example_format_item x"
| "example_format_items (x # xs) = example_format_item x @ '', '' @ example_format_items xs"

fun example_format :: "pyval \<Rightarrow> string" where
  "example_format (PStr s) = s"
| "example_format PNone = ''None''"
| "example_format (PBool b) = (if b then ''True'' else ''False'')"
| "example_format (PList xs) = ''['' @ example_format_items xs @ '']''"
| "example_format v = ''?''"

definition example_env :: "(request \<times> response, unit) env" where
  "example_env =
     \<lparr>Cassette_init = (\<lambda>name ser placeholders mode preserve dir.
        Inr ((example_cassette mode)\<lparr>cassette_name := name\<rparr>)),
      can_be_loaded = (\<lambda>dir name ser mode. name \<noteq> []),
      find_match = (\<lambda>c req. find (\<lambda>i. fst i = req) (interactions c)),
      is_recording = (\<lambda>c. record_mode c \<noteq> PStr ''none''),
      make_interaction = (\<lambda>c resp req. (req, resp)),
      as_response = snd,
      earliest_recorded_date = (\<lambda>c. 0),
      transport_send =
        (\<lambda>ad req. Inr \<lparr>status_code = 200, body = ''live'', connection = Some ad\<rparr>),
      format_value = example_format\<rparr>"

definition example_session :: session where
  "example_session = [(''https://'', AdapterRef 1), (''http://'', AdapterRef 2)]"

definition example_adapter :: "pyval \<Rightarrow> (request \<times> response, unit) BetamaxAdapter" where
  "example_adapter mode =
     (BetamaxAdapter_init (AdapterRef 0) example_session)\<lparr>cassette := Some (example_cassette mode)\<rparr>"

definition example_globals :: globals where
  "example_globals =
     \<lparr>CASSETTE_LIBRARY_DIR = PStr ''vcr/cassettes'',
      default_cassette_options =
        [(''record_mode'', PStr ''once''),
         (''match_requests_on'', PList [PStr ''method'', PStr ''uri'']),
         (''re_record_interval'', PNone),
         (''placeholders'', PList []),
         (''preserve_exact_body_bytes'', PBool False)],
      default_cassette_options_id = 0,
      matcher_registry = [''method'', ''uri'', ''body''],
      serializer_registry = [''json'']\<rparr>"

definition example_betamax :: "(request \<times> response, unit) Betamax" where
  "example_betamax = fst (Betamax_init example_globals example_session (AdapterRef 0) PNone [])"

definition example_betamax_in_use :: "(request \<times> response, unit) Betamax" where
  "example_betamax_in_use =
     example_betamax\<lparr>betamax_adapter :=
       (betamax_adapter example_betamax)\<lparr>cassette := Some (example_cassette (PStr ''once''))\<rparr>\<rparr>"

definition example_data :: "pyval dict" where
  "example_data =
     [(''record'', PStr ''bogus''),
      (''colour'', PStr ''red''),
      (''match_requests_on'', PList [PStr ''uri'']),
      (''re_record_interval'', PInt (- 1)),
      (''placeholders'', PList [PDict [(''a'', PInt 1)], PInt 5]),
      (''serialize_with'', PStr ''json'')]"

definition example_globals_after :: globals where
  "example_globals_after =
     snd (Betamax_init example_globals example_session (AdapterRef 0) PNone
            [(''re_record_interval'', PInt 1000)]
          :: (request \<times> response, unit) Betamax \<times> globals)"

definition example_mounts :: "(string \<times> adapter_ref) list" where
  "example_mounts =
     [(''https://'', AdapterRef 1), (''http://'', AdapterRef 2),
      (''http://example.test/'', AdapterRef 3)]"

definition example_mounted_adapter :: "(request \<times> response, unit) BetamaxAdapter" where
  "example_mounted_adapter = BetamaxAdapter_init (AdapterRef 0) (session_of example_mounts)"

definition remounted_session :: session where
  "remounted_session = mount example_session ''http://'' (AdapterRef 3)"

definition masked_globals :: globals where
  "masked_globals =
     snd (Betamax_init
            (snd (Betamax_init example_globals example_session (AdapterRef 0) PNone
                    [(''record'', PStr ''none'')]
                  :: (request \<times> response, unit) Betamax \<times> globals))
            example_session (AdapterRef 0) PNone [(''record_mode'', PStr ''all'')]
          :: (request \<times> response, unit) Betamax \<times> globals)"

text \<open>
  The message Python builds for an unmatched \<^verbatim>\<open>GET http://example.test/\<close> on the
  cassette \<^verbatim>\<open>example\<close> in mode \<^verbatim>\<open>none\<close>.
\<close>

definition example_message :: string where
  "example_message =
     ''A request was made that could not be handled.'' @ newline @ newline @
     ''A request was made to http://example.test/ that could not be found in example.''
       @ newline @ newline @
     ''The settings on the cassette are:'' @ newline @ newline @
     ''    - record_mode: none'' @ newline @
     ''    - match_options ['' @ [CHR 0x27] @ ''method'' @ [CHR 0x27] @ '', ''
       @ [CHR 0x27] @ ''uri'' @ [CHR 0x27] @ ''].'' @ newline"

text \<open>
  A \<^verbatim>\<open>Betamax\<close> created with \<^verbatim>\<open>default_cassette_options={'re_record_interval': 1}\<close>,
  and the globals it leaves.
\<close>

definition interval_betamax :: "(request \<times> response, unit) Betamax \<times> globals" where
  "interval_betamax =
     Betamax_init example_globals example_session (AdapterRef 0) PNone
       [(''re_record_interval'', PInt 1)]"

section \<open>Dictionaries\<close>

lemma map_of_dict_set: "map_of (dict_set d k v) = (map_of d)(k \<mapsto> v)"
  by (induction d k v rule: dict_set.induct) auto

lemma keys_dict_set: "fst ` set (dict_set d k v) = insert k (fst ` set d)"
  by (induction d k v rule: dict_set.induct) auto

lemma distinct_dict_set:
  "distinct (map fst d) \<Longrightarrow> distinct (map fst (dict_set d k v))"
  by (induction d k v rule: dict_set.induct) (auto simp: keys_dict_set)

lemma map_of_dict_update:
  "map_of (dict_update d kvs) k =
     (case map_of (rev kvs) k of Some v \<Rightarrow> Some v | None \<Rightarrow> map_of d k)"
  unfolding dict_update_def
proof (induction kvs arbitrary: d)
  case Nil
  show ?case by simp
next
  case (Cons kv kvs)
  obtain k' v' where kv: "kv = (k', v')" by (cases kv)
  show ?case
    by (simp add: kv Cons.IH map_of_dict_set map_add_def split: option.splits)
qed

lemma distinct_dict_update:
  "distinct (map fst d) \<Longrightarrow> distinct (map fst (dict_update d kvs))"
  unfolding dict_update_def
  by (induction kvs arbitrary: d) (auto simp: distinct_dict_set)

lemma map_of_rev_distinct:
  "distinct (map fst kvs) \<Longrightarrow> map_of (rev kvs) = map_of kvs"
  by (simp add: map_of_inject_set rev_map[symmetric])

section \<open>The adapter's failures\<close>

text \<open>
  C2. With no cassette loaded, \<^verbatim>\<open>send\<close> raises \<^verbatim>\<open>BetamaxError\<close> at once: the adapter is
  unchanged and no call has left it (no match lookup, no live call). This holds for any
  adapter whose cassette field is unset, for an adapter after \<^verbatim>\<open>eject_cassette\<close>, and
  for a freshly created one.
\<close>

theorem send_without_cassette_raises:
  "send e (self\<lparr>cassette := None\<rparr>) req =
     (Inl (BetamaxError ''No cassette was specified or found.''), self\<lparr>cassette := None\<rparr>, [])
   \<and> send e (fst (eject_cassette self)) req =
     (Inl (BetamaxError ''No cassette was specified or found.''), fst (eject_cassette self), [])
   \<and> send e (BetamaxAdapter_init r old) req =
     (Inl (BetamaxError ''No cassette was specified or found.''), BetamaxAdapter_init r old, [])"
  by (simp add: send_def eject_cassette_def BetamaxAdapter_init_def)

text \<open>
  With a cassette loaded, when no recorded interaction is found (the cassette is empty,
  or the lookup finds nothing) and the cassette is not recording, \<^verbatim>\<open>send\<close> raises
  \<^verbatim>\<open>BetamaxError\<close>; no live call is made and the adapter is unchanged. The message
  contains the request's URL, the cassette's \<^verbatim>\<open>cassette_name\<close>, its record mode and its
  match options.
\<close>

lemma send_unmatched_raises:
  assumes loaded: "cassette self = Some c"
    and miss: "interactions c = [] \<or> find_match e c req = None"
    and replay_only: "\<not> is_recording e c"
  shows "send e self req =
           (Inl (BetamaxError (unhandled_request_message e req c)), self,
            if interactions c = [] then [] else [FindMatch req])
         \<and> sublist (url req) (unhandled_request_message e req c)
         \<and> sublist (cassette_name c) (unhandled_request_message e req c)
         \<and> sublist (format_value e (record_mode c)) (unhandled_request_message e req c)
         \<and> sublist (format_value e (match_options c)) (unhandled_request_message e req c)"
proof -
  have raised: "send e self req =
           (Inl (BetamaxError (unhandled_request_message e req c)), self,
            if interactions c = [] then [] else [FindMatch req])"
    using loaded miss replay_only by (auto simp: send_def Let_def)
  have u: "sublist (url req) (unhandled_request_message e req c)"
    unfolding unhandled_request_message_def sublist_def by (metis append.assoc)
  have n: "sublist (cassette_name c) (unhandled_request_message e req c)"
    unfolding unhandled_request_message_def sublist_def by (metis append.assoc)
  have m: "sublist (format_value e (record_mode c)) (unhandled_request_message e req c)"
    unfolding unhandled_request_message_def sublist_def by (metis append.assoc)
  have o: "sublist (format_value e (match_options c)) (unhandled_request_message e req c)"
    unfolding unhandled_request_message_def sublist_def by (metis append.assoc)
  from raised u n m o show ?thesis by simp
qed

text \<open>
  C1, at \<^verbatim>\<open>use_cassette('example', record='none')\<close> followed by an unmatched
  \<^verbatim>\<open>GET http://example.test/\<close>, with the library directory \<^verbatim>\<open>vcr/cassettes\<close> and the
  serializer \<^verbatim>\<open>json\<close>. \<^verbatim>\<open>send\<close> raises \<^verbatim>\<open>BetamaxError\<close>, and the message names the URL,
  the record mode and the match options. Where the message says in which file the
  request could not be found, it holds the cassette's name, \<^verbatim>\<open>example\<close>: the file path
  of the cassette does not occur in the message.
\<close>

theorem unmatched_message_names_cassette_name_not_path:
  "fst (snd (use_cassette example_env example_globals 0 example_betamax ''example''
               [(''record'', PStr ''none'')]))
     = example_betamax\<lparr>betamax_adapter :=
         (betamax_adapter example_betamax)
           \<lparr>cassette := Some ((example_cassette (PStr ''none''))),
            adapter_cassette_name := Some ''example'',
            serialize := PStr ''json'',
            options := [(''record'', PStr ''none''),
                        (''cassette_library_dir'', PStr ''vcr/cassettes'')]\<rparr>\<rparr>
   \<and> fst (send example_env
            (betamax_adapter
               (fst (snd (use_cassette example_env example_globals 0 example_betamax ''example''
                            [(''record'', PStr ''none'')]))))
            example_request)
       = Inl (BetamaxError example_message)
   \<and> sublist ''http://example.test/'' example_message
   \<and> sublist ''could not be found in example.'' example_message
   \<and> \<not> sublist (Cassette_storage_path ''vcr/cassettes'' ''example'' ''json'') example_message"
proof -
  have loaded: "fst (snd (use_cassette example_env example_globals 0 example_betamax ''example''
               [(''record'', PStr ''none'')]))
     = example_betamax\<lparr>betamax_adapter :=
         (betamax_adapter example_betamax)
           \<lparr>cassette := Some ((example_cassette (PStr ''none''))),
            adapter_cassette_name := Some ''example'',
            serialize := PStr ''json'',
            options := [(''record'', PStr ''none''),
                        (''cassette_library_dir'', PStr ''vcr/cassettes'')]\<rparr>\<rparr>"
    by (simp add: use_cassette_def load_cassette_def Let_def Options_init_def Options_validate_def
        valid_options_def validate_record_def Options_getitem_def Options_setitem_def
        Options_items_def Options_defaults_def dict_get_default_def dict_update_def
        translate_cassette_options_def Configuration_cassette_library_dir_def
        example_globals_def example_env_def example_betamax_def Betamax_init_def
        BetamaxAdapter_init_def example_cassette_def timedelta_max_def microseconds_per_day_def)
  have raised: "fst (send example_env
            ((betamax_adapter example_betamax)
               \<lparr>cassette := Some ((example_cassette (PStr ''none''))),
                adapter_cassette_name := Some ''example'',
                serialize := PStr ''json'',
                options := [(''record'', PStr ''none''),
                            (''cassette_library_dir'', PStr ''vcr/cassettes'')]\<rparr>)
            example_request)
       = Inl (BetamaxError example_message)"
    by (simp add: send_def Let_def example_env_def example_cassette_def example_request_def
        other_request_def unhandled_request_message_def example_message_def)
  have u: "sublist ''http://example.test/'' example_message"
    by code_simp
  have n: "sublist ''could not be found in example.'' example_message"
    by code_simp
  have p: "\<not> sublist (Cassette_storage_path ''vcr/cassettes'' ''example'' ''json'') example_message"
    by code_simp
  from loaded raised u n p show ?thesis by simp
qed

section \<open>Configuration writes\<close>

text \<open>
  C10. Assigning any value \<open>v\<close> (an object of any identity \<open>oid\<close>) to
  \<^verbatim>\<open>preserve_exact_body_bytes\<close> on a \<^verbatim>\<open>Configuration\<close> stores \<^verbatim>\<open>True\<close> under that key in the process-wide default options; \<open>v\<close> plays no
  part in the result, so \<^verbatim>\<open>False\<close> cannot be stored this way.
\<close>

theorem preserve_exact_body_bytes_always_True:
  "Configuration_setattr ''preserve_exact_body_bytes'' oid v g =
     Some (g\<lparr>default_cassette_options :=
              dict_set (default_cassette_options g) ''preserve_exact_body_bytes'' (PBool True)\<rparr>)
   \<and> map_option
         (\<lambda>g'. map_of (Configuration_default_cassette_options g') ''preserve_exact_body_bytes'')
         (Configuration_setattr ''preserve_exact_body_bytes'' oid v g)
       = Some (Some (PBool True))"
  by (simp add: Configuration_setattr_def Configuration_default_cassette_options_def
      map_of_dict_set)

section \<open>Mounting\<close>

lemma dict_set_absent: "k \<notin> fst ` set d \<Longrightarrow> dict_set d k v = d @ [(k, v)]"
  by (induction d k v rule: dict_set.induct) auto

lemma dict_set_present: "k \<in> fst ` set d \<Longrightarrow> map fst (dict_set d k v) = map fst d"
  by (induction d k v rule: dict_set.induct) auto

lemma filter_other_keys: "key \<notin> fst ` set d \<Longrightarrow> filter (\<lambda>kv. fst kv \<noteq> key) d = d"
  by (induction d) auto

lemma move_to_end_first:
  "key \<notin> fst ` set d \<Longrightarrow> dict_move_to_end ((key, v) # d) key = d @ [(key, v)]"
  by (simp add: dict_move_to_end_def filter_other_keys dict_set_absent)

lemma move_to_end_later:
  "fst x \<noteq> key \<Longrightarrow> dict_move_to_end (x # d) key = x # dict_move_to_end d key"
  by (cases x) (auto simp: dict_move_to_end_def split: option.splits)

lemma foldl_move_later:
  "fst x \<notin> set ks \<Longrightarrow> foldl dict_move_to_end (x # d) ks = x # foldl dict_move_to_end d ks"
  by (induction ks arbitrary: d) (auto simp: move_to_end_later)

lemma foldl_move_partition:
  "distinct (map fst (xs @ moved)) \<Longrightarrow>
   foldl dict_move_to_end (xs @ moved) (map fst (filter P xs))
     = filter (\<lambda>kv. \<not> P kv) xs @ moved @ filter P xs"
proof (induction xs arbitrary: moved)
  case Nil
  show ?case by simp
next
  case (Cons x xs)
  obtain k v where x: "x = (k, v)" by (cases x)
  show ?case
  proof (cases "P x")
    case True
    from Cons.prems x have absent: "k \<notin> fst ` set (xs @ moved)" by auto
    from Cons.prems have d: "distinct (map fst (xs @ (moved @ [x])))" by (auto simp: x)
    have "dict_move_to_end (x # xs @ moved) k = xs @ (moved @ [x])"
      using move_to_end_first [OF absent, of v] by (simp add: x)
    with True Cons.IH [OF d] show ?thesis by (simp add: x)
  next
    case False
    from Cons.prems x have "k \<notin> fst ` set xs" by auto
    then have notin: "fst x \<notin> set (map fst (filter P xs))" by (auto simp: x)
    from Cons.prems have d: "distinct (map fst (xs @ moved))" by simp
    from False foldl_move_later [OF notin, of "xs @ moved"] Cons.IH [OF d]
    show ?thesis by simp
  qed
qed

lemma mount_partition:
  assumes "distinct (map fst s)"
  shows "mount s pre adapter =
           filter (\<lambda>kv. \<not> length (fst kv) < length pre) (dict_set s pre adapter)
           @ filter (\<lambda>kv. length (fst kv) < length pre) (dict_set s pre adapter)"
proof -
  have d: "distinct (map fst (dict_set s pre adapter @ []))"
    using assms by (simp add: distinct_dict_set)
  have k: "filter (\<lambda>k. length k < length pre) (map fst (dict_set s pre adapter))
         = map fst (filter (\<lambda>kv. length (fst kv) < length pre) (dict_set s pre adapter))"
    by (simp add: filter_map comp_def)
  from foldl_move_partition [OF d, of "\<lambda>kv. length (fst kv) < length pre"]
  show ?thesis by (simp add: mount_def Let_def k)
qed

lemma distinct_mount:
  assumes "distinct (map fst s)"
  shows "distinct (map fst (mount s pre adapter))"
proof -
  have "distinct (map fst (dict_set s pre adapter))"
    using assms by (rule distinct_dict_set)
  then show ?thesis
    unfolding mount_partition [OF assms]
    by (auto simp: distinct_map_filter)
qed

lemma set_mount:
  "distinct (map fst s) \<Longrightarrow> set (mount s pre adapter) = set (dict_set s pre adapter)"
  by (auto simp: mount_partition)

lemma map_of_mount:
  assumes "distinct (map fst s)"
  shows "map_of (mount s pre adapter) = (map_of s)(pre \<mapsto> adapter)"
proof -
  have "map_of (mount s pre adapter) = map_of (dict_set s pre adapter)"
    using assms
    by (simp add: map_of_inject_set distinct_mount distinct_dict_set set_mount)
  then show ?thesis by (simp add: map_of_dict_set)
qed


lemma sorted_mount:
  assumes keys: "distinct (map fst s)"
    and sorted: "sorted_wrt (\<lambda>x y. length (fst y) \<le> length (fst x)) s"
  shows "sorted_wrt (\<lambda>x y. length (fst y) \<le> length (fst x)) (mount s pre adapter)"
proof -
  let ?R = "\<lambda>x y :: string \<times> adapter_ref. length (fst y) \<le> length (fst x)"
  let ?short = "\<lambda>kv :: string \<times> adapter_ref. length (fst kv) < length pre"
  let ?s1 = "dict_set s pre adapter"
  have s1: "sorted_wrt ?R (filter (\<lambda>kv. \<not> ?short kv) ?s1) \<and> sorted_wrt ?R (filter ?short ?s1)"
  proof (cases "pre \<in> fst ` set s")
    case True
    have "sorted_wrt ?R ?s1 = sorted_wrt (\<lambda>p q. length q \<le> length p) (map fst ?s1)"
      by (simp add: sorted_wrt_map)
    also have "\<dots> = sorted_wrt (\<lambda>p q. length q \<le> length p) (map fst s)"
      by (simp only: dict_set_present [OF True])
    also have "\<dots> = sorted_wrt ?R s"
      by (simp add: sorted_wrt_map)
    finally have "sorted_wrt ?R ?s1" using sorted by simp
    then show ?thesis by (simp add: sorted_wrt_filter)
  next
    case False
    have long: "sorted_wrt ?R (filter (\<lambda>kv. \<not> ?short kv) s)"
      and short: "sorted_wrt ?R (filter ?short s)"
      using sorted by (simp_all add: sorted_wrt_filter)
    from long short show ?thesis
      by (auto simp: dict_set_absent [OF False] sorted_wrt_append)
  qed
  then show ?thesis
    unfolding mount_partition [OF keys] by (auto simp: sorted_wrt_append)
qed

lemma session_of_invariant:
  "distinct (map fst s) \<Longrightarrow> sorted_wrt (\<lambda>x y. length (fst y) \<le> length (fst x)) s \<Longrightarrow>
   distinct (map fst (foldl (\<lambda>s (k, adapter). mount s k adapter) s mounts))
   \<and> sorted_wrt (\<lambda>x y. length (fst y) \<le> length (fst x))
        (foldl (\<lambda>s (k, adapter). mount s k adapter) s mounts)"
  by (induction mounts arbitrary: s) (auto simp: distinct_mount sorted_mount)

lemma session_of_sorted:
  "sorted_wrt (\<lambda>x y. length (fst y) \<le> length (fst x)) (session_of mounts)"
  using session_of_invariant [of "[]" mounts] by (simp add: session_of_def)

lemma session_of_distinct: "distinct (map fst (session_of mounts))"
  using session_of_invariant [of "[]" mounts] by (simp add: session_of_def)

section \<open>Choosing the real transport\<close>

lemma find_adapter_loop_first:
  "find_adapter_loop old u =
     (case filter (\<lambda>item. prefix (fst item) (lower u)) old of
        [] \<Rightarrow> None
      | m # ms \<Rightarrow> Some (snd m))"
  by (induction old u rule: find_adapter_loop.induct) auto

lemma foldl_longest_keeps:
  "\<forall>x \<in> set ms. length (fst x) \<le> length (fst m) \<Longrightarrow>
   foldl (\<lambda>best item. if length (fst best) < length (fst item) then item else best) m ms = m"
  by (induction ms) auto

lemma sorted_filter_head:
  assumes "sorted_wrt (\<lambda>x y. length (fst y) \<le> length (fst x)) old"
    and "filter P old = m # ms"
  shows "\<forall>x \<in> set ms. length (fst x) \<le> length (fst m)"
proof -
  have "sorted_wrt (\<lambda>x y. length (fst y) \<le> length (fst x)) (filter P old)"
    using assms(1) by (rule sorted_wrt_filter)
  then show ?thesis using assms(2) by simp
qed

lemma find_adapter_loop_longest:
  assumes "sorted_wrt (\<lambda>x y. length (fst y) \<le> length (fst x)) old"
  shows "find_adapter_loop old u = longest_prefix_adapter old u"
proof (cases "filter (\<lambda>item. prefix (fst item) (lower u)) old")
  case Nil
  then show ?thesis by (simp add: find_adapter_loop_first longest_prefix_adapter_def)
next
  case (Cons m ms)
  from sorted_filter_head [OF assms Cons]
  have "foldl (\<lambda>best item. if length (fst best) < length (fst item) then item else best) m ms = m"
    by (rule foldl_longest_keeps)
  with Cons show ?thesis by (simp add: find_adapter_loop_first longest_prefix_adapter_def)
qed

text \<open>
  C3. The handlers an adapter preserves are the table of a session, and a session's
  table is built by \<^verbatim>\<open>mount\<close>, which keeps it ordered by descending prefix length. On
  such a table \<^verbatim>\<open>find_adapter\<close>, which returns the first item whose prefix the lowercased
  URL starts with, returns the handler of the longest registered prefix that the
  lowercased URL starts with. \<^verbatim>\<open>send_and_record\<close> makes its live call on that handler;
  when no prefix matches there is no handler and it raises. The table a \<^verbatim>\<open>Betamax\<close>
  hands to its adapter is the session's.
\<close>

theorem find_adapter_selects_longest_prefix:
  assumes preserved: "old_adapters self = session_of mounts"
  shows "find_adapter self u = longest_prefix_adapter (old_adapters self) u
         \<and> (case find_adapter self (url req) of
              None \<Rightarrow> send_and_record e self req = (Inl AttributeError, self, [])
            | Some adapter \<Rightarrow>
                find_adapter self (url req) = longest_prefix_adapter (old_adapters self) (url req)
                \<and> hd (snd (snd (send_and_record e self req))) = TransportSend adapter req)
         \<and> old_adapters (betamax_adapter (fst (Betamax_init g (session_of mounts) r dir dco)))
             = session_of mounts"
proof -
  have a: "find_adapter self v = longest_prefix_adapter (old_adapters self) v" for v
    by (simp add: find_adapter_def preserved find_adapter_loop_longest session_of_sorted)
  have c: "(case find_adapter self (url req) of
              None \<Rightarrow> send_and_record e self req = (Inl AttributeError, self, [])
            | Some adapter \<Rightarrow>
                find_adapter self (url req) = longest_prefix_adapter (old_adapters self) (url req)
                \<and> hd (snd (snd (send_and_record e self req))) = TransportSend adapter req)"
    using a [of "url req"]
    by (simp add: send_and_record_def Let_def split: option.splits sum.splits)
  have b: "old_adapters (betamax_adapter (fst (Betamax_init g (session_of mounts) r dir dco)))
             = session_of mounts"
    by (simp add: Betamax_init_def Let_def BetamaxAdapter_init_def)
  from a c b show ?thesis by blast
qed

theorem find_adapter_selects_longest_prefix_witness:
  "old_adapters example_mounted_adapter = session_of example_mounts
   \<and> session_of example_mounts =
       [(''http://example.test/'', AdapterRef 3), (''https://'', AdapterRef 1),
        (''http://'', AdapterRef 2)]
   \<and> find_adapter example_mounted_adapter ''HTTP://Example.test/a'' = Some (AdapterRef 3)
   \<and> longest_prefix_adapter (session_of example_mounts) ''HTTP://Example.test/a''
       = Some (AdapterRef 3)"
proof -
  have o: "old_adapters example_mounted_adapter = session_of example_mounts"
    by (simp add: example_mounted_adapter_def BetamaxAdapter_init_def)
  have s: "session_of example_mounts =
       [(''http://example.test/'', AdapterRef 3), (''https://'', AdapterRef 1),
        (''http://'', AdapterRef 2)]"
    by code_simp
  have l: "longest_prefix_adapter (session_of example_mounts) ''HTTP://Example.test/a''
       = Some (AdapterRef 3)"
    by code_simp
  have "find_adapter example_mounted_adapter ''HTTP://Example.test/a''
          = longest_prefix_adapter (old_adapters example_mounted_adapter) ''HTTP://Example.test/a''"
    by (rule find_adapter_selects_longest_prefix [OF o, THEN conjunct1])
  with o s l show ?thesis by simp
qed

section \<open>Recording a miss\<close>

text \<open>
  C7. On a miss with the cassette recording, when a real transport is found for the URL
  and its live call returns, \<^verbatim>\<open>send\<close> saves the live response and answers from the last
  element of the cassette's interaction list, which is the interaction just appended.
  The response built from it has the adapter itself in its \<^verbatim>\<open>connection\<close> field, as
  has every response \<^verbatim>\<open>send\<close> returns.
\<close>

theorem send_records_and_answers_with_last:
  assumes loaded: "cassette self = Some c"
    and miss: "interactions c = [] \<or> find_match e c req = None"
    and recording: "is_recording e c"
    and found: "find_adapter self (url req) = Some adapter"
    and live: "transport_send e adapter req = Inr resp"
  shows "send e self req =
           (Inr ((as_response e (last (interactions (Cassette_save_interaction e c resp req))))
                   \<lparr>connection := Some (self_ref self)\<rparr>),
            self\<lparr>cassette := Some (Cassette_save_interaction e c resp req)\<rparr>,
            (if interactions c = [] then [] else [FindMatch req])
              @ [TransportSend adapter req, SaveInteraction req])
         \<and> interactions (Cassette_save_interaction e c resp req)
             = interactions c @ [make_interaction e c resp req]
         \<and> last (interactions (Cassette_save_interaction e c resp req))
             = make_interaction e c resp req
         \<and> (\<forall>r self' evs. send e self req = (Inr r, self', evs)
               \<longrightarrow> connection r = Some (self_ref self))"
proof -
  have saved: "interactions (Cassette_save_interaction e c resp req)
      = interactions c @ [make_interaction e c resp req]"
    by (simp add: Cassette_save_interaction_def)
  have rec: "send_and_record e self req =
      (Inr (last (interactions (Cassette_save_interaction e c resp req))),
       self\<lparr>cassette := Some (Cassette_save_interaction e c resp req)\<rparr>,
       [TransportSend adapter req, SaveInteraction req])"
    using loaded found live by (simp add: send_and_record_def Let_def saved)
  have sent: "send e self req =
           (Inr ((as_response e (last (interactions (Cassette_save_interaction e c resp req))))
                   \<lparr>connection := Some (self_ref self)\<rparr>),
            self\<lparr>cassette := Some (Cassette_save_interaction e c resp req)\<rparr>,
            (if interactions c = [] then [] else [FindMatch req])
              @ [TransportSend adapter req, SaveInteraction req])"
    using loaded miss recording by (auto simp: send_def Let_def rec)
  from sent saved show ?thesis by simp
qed


theorem send_records_and_answers_with_last_witness:
  "cassette (example_adapter (PStr ''new_episodes'')) = Some (example_cassette (PStr ''new_episodes''))
   \<and> find_match example_env (example_cassette (PStr ''new_episodes'')) example_request = None
   \<and> is_recording example_env (example_cassette (PStr ''new_episodes''))
   \<and> find_adapter (example_adapter (PStr ''new_episodes'')) (url example_request)
        = Some (AdapterRef 2)
   \<and> fst (send example_env (example_adapter (PStr ''new_episodes'')) example_request)
        = Inr \<lparr>status_code = 200, body = ''live'', connection = Some (AdapterRef 0)\<rparr>
   \<and> snd (snd (send example_env (example_adapter (PStr ''new_episodes'')) example_request))
        = [FindMatch example_request, TransportSend (AdapterRef 2) example_request,
           SaveInteraction example_request]"
proof -
  have f: "find_adapter (example_adapter (PStr ''new_episodes'')) (url example_request)
        = Some (AdapterRef 2)"
    by code_simp
  have t: "transport_send example_env (AdapterRef 2) example_request
        = Inr \<lparr>status_code = 200, body = ''live'', connection = Some (AdapterRef 2)\<rparr>"
    by (simp add: example_env_def)
  have l: "cassette (example_adapter (PStr ''new_episodes''))
        = Some (example_cassette (PStr ''new_episodes''))"
    by (simp add: example_adapter_def)
  have m: "find_match example_env (example_cassette (PStr ''new_episodes'')) example_request = None"
    by (simp add: example_env_def example_cassette_def example_request_def other_request_def)
  have r: "is_recording example_env (example_cassette (PStr ''new_episodes''))"
    by (simp add: example_env_def example_cassette_def)
  from send_records_and_answers_with_last [OF l disjI2 [OF m] r f t] f l m r
  show ?thesis
    by (simp add: Cassette_save_interaction_def example_env_def example_cassette_def
        example_adapter_def BetamaxAdapter_init_def)
qed

section \<open>Starting and stopping\<close>

lemma map_of_start:
  "distinct (map fst s) \<Longrightarrow>
   distinct (map fst (foldl (\<lambda>acc k. mount acc k r) s ks))
   \<and> map_of (foldl (\<lambda>acc k. mount acc k r) s ks) k =
       (if k \<in> set ks then Some r else map_of s k)"
  by (induction ks arbitrary: s) (auto simp: distinct_mount map_of_mount)

lemma map_of_remount:
  "distinct (map fst s) \<Longrightarrow>
   distinct (map fst (foldl (\<lambda>acc (k, v). mount acc k v) s kvs))
   \<and> map_of (foldl (\<lambda>acc (k, v). mount acc k v) s kvs) k =
       (case map_of (rev kvs) k of Some v \<Rightarrow> Some v | None \<Rightarrow> map_of s k)"
proof (induction kvs arbitrary: s)
  case Nil
  then show ?case by simp
next
  case (Cons kv kvs)
  obtain k' v' where kv: "kv = (k', v')" by (cases kv)
  from Cons.prems have d: "distinct (map fst (mount s k' v'))" by (rule distinct_mount)
  from Cons.IH [OF d] Cons.prems show ?case
    by (simp add: kv map_of_mount map_add_def split: option.splits)
qed

text \<open>
  C8, as the code has it. A \<^verbatim>\<open>Betamax\<close> copies the session's table \<open>s0\<close> when it is
  created; \<open>s1\<close> is the session's table when \<^verbatim>\<open>start\<close> is called, and any cassette may be
  loaded meanwhile. \<^verbatim>\<open>start\<close> mounts the interception adapter on every prefix of \<open>s0\<close>, and
  \<^verbatim>\<open>stop\<close> after it mounts every prefix of \<open>s0\<close> to the adapter it had in \<open>s0\<close>. A prefix
  that is not in \<open>s0\<close> is left as it is in \<open>s1\<close>. When the session was not remounted
  between creation and \<^verbatim>\<open>start\<close>, it maps every prefix as before \<^verbatim>\<open>start\<close>. The cassette
  is ejected and unset, and the adapter is closed.
\<close>

theorem start_stop_restores:
  fixes b :: "('i, 'c) Betamax"
  assumes at_construction: "distinct (map fst s0)"
    and at_start: "distinct (map fst s1)"
    and created: "b = fst (Betamax_init g s0 r dir dco)"
    and used: "b' = b\<lparr>betamax_adapter := (betamax_adapter b)\<lparr>cassette := loaded\<rparr>\<rparr>"
    and stopped: "stop b' (start b' s1) = (b2, s2, evs)"
  shows "(\<forall>k v. map_of s0 k = Some v \<longrightarrow>
            map_of (start b' s1) k = Some r \<and> map_of s2 k = Some v)
         \<and> (\<forall>k. map_of s0 k = None \<longrightarrow>
               map_of (start b' s1) k = map_of s1 k \<and> map_of s2 k = map_of s1 k)
         \<and> (s1 = s0 \<longrightarrow> map_of s2 = map_of s0)
         \<and> cassette (betamax_adapter b2) = None
         \<and> evs = (case loaded of None \<Rightarrow> [] | Some c \<Rightarrow> [CassetteEject (cassette_name c)])
                   @ [HTTPAdapterClose]"
proof -
  have h: "http_adapters b' = s0" and r: "self_ref (betamax_adapter b') = r"
    and l: "cassette (betamax_adapter b') = loaded"
    using created used by (simp_all add: Betamax_init_def Let_def BetamaxAdapter_init_def)
  have started: "distinct (map fst (start b' s1))"
    and during: "map_of (start b' s1) k = (if k \<in> fst ` set s0 then Some r else map_of s1 k)" for k
    using map_of_start [OF at_start, of r "map fst s0" k] by (simp_all add: start_def h r)
  have s2: "s2 = foldl (\<lambda>acc (k, v). mount acc k v) (start b' s1) s0"
    using stopped by (simp add: stop_def eject_cassette_def BetamaxAdapter_close_def h
        split: prod.splits)
  have after: "map_of s2 k = (case map_of s0 k of Some v \<Rightarrow> Some v | None \<Rightarrow> map_of s1 k)" for k
  proof (cases "map_of s0 k")
    case None
    then have "k \<notin> fst ` set s0" by (simp add: map_of_eq_None_iff)
    with None show ?thesis
      using map_of_remount [OF started, of s0 k]
      by (simp add: s2 map_of_rev_distinct [OF at_construction] during)
  next
    case (Some v)
    then show ?thesis
      using map_of_remount [OF started, of s0 k]
      by (simp add: s2 map_of_rev_distinct [OF at_construction])
  qed
  have known: "map_of (start b' s1) k = Some r \<and> map_of s2 k = Some v" if "map_of s0 k = Some v" for k v
  proof -
    from that have "k \<in> fst ` set s0" by (metis map_of_eq_None_iff option.distinct(1))
    with that show ?thesis by (simp add: during after)
  qed
  have unknown: "map_of (start b' s1) k = map_of s1 k \<and> map_of s2 k = map_of s1 k"
    if "map_of s0 k = None" for k
  proof -
    from that have "k \<notin> fst ` set s0" by (simp add: map_of_eq_None_iff)
    with that show ?thesis by (simp add: during after)
  qed
  have same: "map_of s2 = map_of s0" if "s1 = s0"
  proof (rule ext)
    fix k
    show "map_of s2 k = map_of s0 k"
      by (cases "map_of s0 k") (simp_all add: after that)
  qed
  have ejected: "cassette (betamax_adapter b2) = None"
    and events: "evs = (case loaded of None \<Rightarrow> []
                        | Some c \<Rightarrow> [CassetteEject (cassette_name c)]) @ [HTTPAdapterClose]"
    using stopped l by (auto simp: stop_def eject_cassette_def BetamaxAdapter_close_def
        split: prod.splits)
  from known unknown same ejected events show ?thesis by blast
qed

theorem start_stop_restores_witness:
  "distinct (map fst example_session)
   \<and> map_of (fst (snd (stop example_betamax_in_use (start example_betamax_in_use example_session))))
       = map_of example_session
   \<and> cassette (betamax_adapter
        (fst (stop example_betamax_in_use (start example_betamax_in_use example_session)))) = None
   \<and> snd (snd (stop example_betamax_in_use (start example_betamax_in_use example_session)))
       = [CassetteEject ''example'', HTTPAdapterClose]"
proof -
  have d: "distinct (map fst example_session)"
    by (simp add: example_session_def)
  have p: "stop example_betamax_in_use (start example_betamax_in_use example_session) =
      (fst (stop example_betamax_in_use (start example_betamax_in_use example_session)),
       fst (snd (stop example_betamax_in_use (start example_betamax_in_use example_session))),
       snd (snd (stop example_betamax_in_use (start example_betamax_in_use example_session))))"
    by simp
  from start_stop_restores [OF d d example_betamax_def example_betamax_in_use_def p] d
  show ?thesis by (simp add: example_cassette_def)
qed

text \<open>
  A prefix remounted between the creation of the \<^verbatim>\<open>Betamax\<close> and \<^verbatim>\<open>start\<close> is not
  restored to the adapter it had before \<^verbatim>\<open>start\<close>, but to the one it had at creation.
\<close>

theorem start_stop_restores_counterexample:
  "map_of remounted_session ''http://'' = Some (AdapterRef 3)
   \<and> map_of (fst (snd (stop example_betamax (start example_betamax remounted_session)))) ''http://''
       = Some (AdapterRef 2)"
proof -
  have d: "distinct (map fst example_session)"
    by (simp add: example_session_def)
  have d': "distinct (map fst remounted_session)"
    unfolding remounted_session_def using d by (rule distinct_mount)
  have before: "map_of remounted_session ''http://'' = Some (AdapterRef 3)"
    by (simp add: remounted_session_def map_of_mount [OF d])
  have h: "http_adapters example_betamax = example_session"
    by (simp add: example_betamax_def Betamax_init_def Let_def)
  have started: "distinct (map fst (start example_betamax remounted_session))"
    using map_of_start [OF d'] by (simp add: start_def)
  have "fst (snd (stop example_betamax (start example_betamax remounted_session)))
        = foldl (\<lambda>acc (k, v). mount acc k v) (start example_betamax remounted_session) example_session"
    by (simp add: stop_def eject_cassette_def BetamaxAdapter_close_def h split: prod.splits)
  then have "map_of (fst (snd (stop example_betamax (start example_betamax remounted_session))))
        ''http://'' = Some (AdapterRef 2)"
    using map_of_remount [OF started, of example_session "''http://''"]
    by (simp add: example_session_def)
  with before show ?thesis by simp
qed

section \<open>Re-recording after an interval\<close>

lemma validated_interval_cases:
  "validate_re_record_interval v = Inr True \<Longrightarrow>
     v = PNone \<or> (\<exists>n > 0. v = PInt n) \<or> v = PBool True"
  by (cases v) auto

lemma elapsed_below_timedelta_max:
  "valid_datetime now \<Longrightarrow> valid_datetime t \<Longrightarrow> \<not> timedelta_max < now - t"
  by (simp add: valid_datetime_def timedelta_max_def microseconds_per_day_def)

lemma elapsed_below_overflow:
  "valid_datetime now \<Longrightarrow> valid_datetime t \<Longrightarrow> 999999999 < n \<Longrightarrow>
     \<not> n * microseconds_per_day < now - t"
  by (simp add: valid_datetime_def microseconds_per_day_def)

lemma load_cassette_unfold:
  assumes table: "map_of (default_cassette_options g) ''match_requests_on'' = Some dflt"
    and merged: "merged = dict_update (options self) (Options_items opts)"
    and built: "Cassette_init e name ser
                  (dict_get_default merged ''placeholders'' (PList []))
                  (dict_get_default merged ''record'' PNone)
                  (dict_get_default merged ''preserve_exact_body_bytes'' PNone)
                  (dict_get_default merged ''cassette_library_dir'' PNone) = Inr c0"
    and loaded: "c = (case map_of merged ''record'' of None \<Rightarrow> c0
                      | Some r \<Rightarrow> c0\<lparr>record_mode := r\<rparr>)
                       \<lparr>match_options := dict_get_default merged ''match_requests_on'' dflt\<rparr>"
    and self2: "self2 = self\<lparr>adapter_cassette_name := Some name, serialize := ser,
                              options := merged, cassette := Some c\<rparr>"
  shows "load_cassette e g now self name ser opts =
     (case (if truthy (dict_get_default merged ''re_record_interval'' PNone)
            then (case map_of merged ''re_record_interval'' of
                    None \<Rightarrow> Inl (KeyError ''re_record_interval'')
                  | Some v \<Rightarrow> timedelta v)
            else Inr timedelta_max) of
        Inl err \<Rightarrow> (Inl err, self2, [])
      | Inr re_record_interval \<Rightarrow>
          (if re_record_interval < now - earliest_recorded_date e c then
             (Inr (), self2\<lparr>cassette := Some (Cassette_clear c)\<rparr>,
              [CassetteClear (cassette_name c)])
           else (Inr (), self2, [])))"
  unfolding self2 loaded using table built
  by (simp add: load_cassette_def Let_def merged [symmetric])

text \<open>
  What \<^verbatim>\<open>load_cassette\<close> does. Take a load that gets as far as a constructed cassette
  \<open>c\<close>, at a valid time, with options that passed validation. \<open>merged\<close> is the adapter's
  own option table once the explicit options given to this load are merged into it.
  \<^verbatim>\<open>clear\<close> is called if and only if \<open>merged\<close> holds an interval and the time elapsed
  since the cassette's \<^verbatim>\<open>earliest_recorded_date\<close> is strictly more than that many days.
  No other table is asked.
\<close>

lemma load_cassette_clears_iff_interval_exceeded:
  assumes table: "map_of (default_cassette_options g) ''match_requests_on'' = Some dflt"
    and merged: "merged = dict_update (options self) (Options_items opts)"
    and built: "Cassette_init e name ser
                  (dict_get_default merged ''placeholders'' (PList []))
                  (dict_get_default merged ''record'' PNone)
                  (dict_get_default merged ''preserve_exact_body_bytes'' PNone)
                  (dict_get_default merged ''cassette_library_dir'' PNone) = Inr c0"
    and loaded: "c = (case map_of merged ''record'' of None \<Rightarrow> c0
                      | Some r \<Rightarrow> c0\<lparr>record_mode := r\<rparr>)
                       \<lparr>match_options := dict_get_default merged ''match_requests_on'' dflt\<rparr>"
    and now: "valid_datetime now"
    and earliest: "valid_datetime (earliest_recorded_date e c)"
    and validated: "\<forall>v. map_of merged ''re_record_interval'' = Some v
                       \<longrightarrow> validate_re_record_interval v = Inr True"
    and result: "load_cassette e g now self name ser opts = (res, self', evs)"
    and due: "due = (\<exists>days. configured_days merged = Some days
                      \<and> days * microseconds_per_day < now - earliest_recorded_date e c)"
  shows "(CassetteClear (cassette_name c) \<in> set evs \<longleftrightarrow> due)
         \<and> (due \<longrightarrow> res = Inr () \<and> cassette self' = Some (c\<lparr>interactions := []\<rparr>))
         \<and> (\<not> due \<longrightarrow> evs = [] \<and> cassette self' = Some c)
         \<and> (configured_days merged = None \<longrightarrow> \<not> due \<and> res = Inr ())"
proof -
  note unf = load_cassette_unfold [OF table merged built loaded refl, of now]
  show ?thesis
  proof (cases "map_of merged ''re_record_interval''")
    case None
    then have nd: "\<not> due" and cd: "configured_days merged = None"
      by (simp_all add: due configured_days_def)
    from None result elapsed_below_timedelta_max [OF now earliest]
    have "res = Inr () \<and> evs = [] \<and> cassette self' = Some c"
      unfolding unf by (auto simp: dict_get_default_def)
    with nd cd show ?thesis by simp
  next
    case (Some v)
    with validated have "validate_re_record_interval v = Inr True" by simp
    then consider (none) "v = PNone" | (int) n where "0 < n" "v = PInt n" | (true) "v = PBool True"
      using validated_interval_cases by blast
    then show ?thesis
    proof cases
      case none
      with Some have nd: "\<not> due" and cd: "configured_days merged = None"
        by (simp_all add: due configured_days_def)
      from none Some result elapsed_below_timedelta_max [OF now earliest]
      have "res = Inr () \<and> evs = [] \<and> cassette self' = Some c"
        unfolding unf by (auto simp: dict_get_default_def)
      with nd cd show ?thesis by simp
    next
      case int
      with Some have cd: "configured_days merged = Some n"
        by (simp add: configured_days_def)
      then have d: "due \<longleftrightarrow> n * microseconds_per_day < now - earliest_recorded_date e c"
        by (simp add: due)
      show ?thesis
      proof (cases "999999999 < n")
        case True
        with elapsed_below_overflow [OF now earliest] d have nd: "\<not> due" by simp
        from True int Some result have "evs = [] \<and> cassette self' = Some c"
          unfolding unf by (auto simp: dict_get_default_def)
        with nd cd show ?thesis by simp
      next
        case False
        with int Some result d cd show ?thesis
          unfolding unf by (auto simp: dict_get_default_def Cassette_clear_def)
      qed
    next
      case true
      with Some have cd: "configured_days merged = Some 1"
        by (simp add: configured_days_def)
      then have d: "due \<longleftrightarrow> microseconds_per_day < now - earliest_recorded_date e c"
        by (simp add: due)
      from true Some result d cd show ?thesis
        unfolding unf by (auto simp: dict_get_default_def Cassette_clear_def)
    qed
  qed
qed

text \<open>
  C4, at \<^verbatim>\<open>Betamax(s, default_cassette_options={'re_record_interval': 1})\<close> followed by
  \<^verbatim>\<open>use_cassette('example')\<close>, two days after the cassette's earliest recording. The
  interval is configured: it is in the process-wide table, and the validated options
  return it for \<^verbatim>\<open>re_record_interval\<close>. More than one day has elapsed. Nothing is
  cleared: \<^verbatim>\<open>load_cassette\<close> makes no call to \<^verbatim>\<open>clear\<close> and the cassette keeps its
  recording, because only the explicit entries of the options reach the adapter's
  table. In the other direction, a load that is given no interval, with none in the
  process-wide table, is cleared when an earlier load of the same adapter was given
  one.
\<close>

theorem default_re_record_interval_is_not_applied:
  "map_of (Configuration_default_cassette_options (snd interval_betamax)) ''re_record_interval''
     = Some (PInt 1)
   \<and> map_sum id (\<lambda>opts. Options_getitem opts ''re_record_interval'')
        (Options_init (snd interval_betamax) []) = Inr (PInt 1)
   \<and> 1 * microseconds_per_day
        < 2 * microseconds_per_day - earliest_recorded_date example_env (example_cassette PNone)
   \<and> fst (use_cassette example_env (snd interval_betamax) (2 * microseconds_per_day)
            (fst interval_betamax) ''example'' []) = Inr ()
   \<and> snd (snd (use_cassette example_env (snd interval_betamax) (2 * microseconds_per_day)
                 (fst interval_betamax) ''example'' [])) = []
   \<and> map_option interactions
        (cassette (betamax_adapter
           (fst (snd (use_cassette example_env (snd interval_betamax) (2 * microseconds_per_day)
                        (fst interval_betamax) ''example'' [])))))
       = Some (interactions (example_cassette PNone))
   \<and> map_of (Configuration_default_cassette_options example_globals) ''re_record_interval''
       = Some PNone
   \<and> snd (snd (use_cassette example_env example_globals (2 * microseconds_per_day)
                 (fst (snd (use_cassette example_env example_globals (2 * microseconds_per_day)
                              example_betamax ''first'' [(''re_record_interval'', PInt 1)])))
                 ''second'' []))
       = [CassetteClear ''second'']"
  by (simp add: interval_betamax_def use_cassette_def load_cassette_def Let_def Options_init_def
      Options_validate_def valid_options_def Options_getitem_def Options_setitem_def
      Options_items_def Options_defaults_def dict_get_default_def dict_update_def
      translate_cassette_options_def Configuration_cassette_library_dir_def
      Configuration_default_cassette_options_def example_globals_def example_env_def
      example_betamax_def Betamax_init_def BetamaxAdapter_init_def example_cassette_def
      timedelta_max_def microseconds_per_day_def Cassette_clear_def)

section \<open>Validated options\<close>

lemma py_all_returns:
  "\<forall>x \<in> set xs. \<exists>b. p x = Inr b \<Longrightarrow> \<exists>b. py_all p xs = Inr b"
  by (induction xs) auto

lemma placeholders_outcome:
  "(reaches_non_mapping ps \<longrightarrow> py_all placeholder_keys_ok ps = Inl AttributeError)
   \<and> (\<not> reaches_non_mapping ps \<longrightarrow> (\<exists>b. py_all placeholder_keys_ok ps = Inr b))"
  by (induction ps rule: reaches_non_mapping.induct) auto

lemma predicate_outcome:
  assumes "map_of (valid_options g) key = Some is_valid"
  shows "(predicate_raises key v \<longrightarrow> is_valid v = Inl TypeError \<or> is_valid v = Inl AttributeError)
         \<and> (\<not> predicate_raises key v \<longrightarrow> (\<exists>b. is_valid v = Inr b))"
proof -
  consider (matchers) "key = ''match_requests_on''" "is_valid = validate_matchers g"
    | (interval) "key = ''re_record_interval''" "is_valid = validate_re_record_interval"
    | (mode) "key = ''record''" "is_valid = validate_record"
    | (serialize) "key = ''serialize'' \<or> key = ''serialize_with''" "is_valid = validate_serializer g"
    | (preserve) "key = ''preserve_exact_body_bytes''" "is_valid = validate_preserve_exact_body_bytes"
    | (placeholders) "key = ''placeholders''" "is_valid = validate_placeholders"
    using assms by (auto simp: valid_options_def split: if_splits)
  then show ?thesis
  proof cases
    case matchers
    have "\<exists>b. py_all (\<lambda>m. Inr (str_in m names)) ms = Inr b" for names ms
      by (rule py_all_returns) simp
    with matchers show ?thesis
      by (cases v) (auto simp: predicate_raises_def validate_matchers_def)
  next
    case interval
    then show ?thesis by (cases v) (auto simp: predicate_raises_def)
  next
    case mode
    then show ?thesis by (simp add: predicate_raises_def validate_record_def)
  next
    case serialize
    then show ?thesis by (auto simp: predicate_raises_def validate_serializer_def)
  next
    case preserve
    then show ?thesis by (cases v) (auto simp: predicate_raises_def)
  next
    case placeholders
    with placeholders_outcome show ?thesis
      by (cases v) (auto simp: predicate_raises_def validate_placeholders_def)
  qed
qed

lemma predicate_raises_recognized:
  "predicate_raises key v \<Longrightarrow> \<exists>is_valid. map_of (valid_options g) key = Some is_valid"
  by (auto simp: predicate_raises_def valid_options_def split: if_splits)

lemma filter_other_keys': "key \<notin> fst ` set d \<Longrightarrow> filter (\<lambda>kv. fst kv \<noteq> key) d = d"
  by (induction d) auto

lemma delitem_present:
  assumes "distinct (map fst (kept @ (key, v) # items))"
  shows "Options_delitem (kept @ (key, v) # items) key = Inr (kept @ items)"
proof -
  from assms have k: "key \<notin> fst ` set kept" and i: "key \<notin> fst ` set items" by auto
  have "map_of (kept @ (key, v) # items) key \<noteq> None"
    by (simp add: map_of_eq_None_iff)
  with k i show ?thesis
    by (simp add: Options_delitem_def dict_del_def filter_other_keys')
qed

lemma validate_loop_outcome:
  assumes "distinct (map fst (kept @ items))"
  shows "(list_ex (\<lambda>(k, v). predicate_raises k v) items \<longrightarrow>
            validate_loop g items (kept @ items) = Inl TypeError
            \<or> validate_loop g items (kept @ items) = Inl AttributeError)
         \<and> (\<not> list_ex (\<lambda>(k, v). predicate_raises k v) items \<longrightarrow>
            validate_loop g items (kept @ items)
              = Inr (kept @ filter (\<lambda>(k, v). accepted g k v) items))"
  using assms
proof (induction items arbitrary: kept)
  case Nil
  show ?case by simp
next
  case (Cons item items)
  obtain key v where item: "item = (key, v)" by (cases item)
  from Cons.prems have d: "distinct (map fst (kept @ (key, v) # items))" by (simp add: item)
  from Cons.prems have d1: "distinct (map fst (kept @ items))" by (simp add: item)
  from Cons.prems have d2: "distinct (map fst ((kept @ [(key, v)]) @ items))"
    by (simp add: item)
  note dropped = Cons.IH [OF d1]
  note retained = Cons.IH [OF d2]
  show ?case
  proof (cases "map_of (valid_options g) key")
    case None
    with predicate_raises_recognized [of key v g] have "\<not> predicate_raises key v" by auto
    with None dropped show ?thesis
      by (simp add: item delitem_present [OF d] accepted_def)
  next
    case (Some is_valid)
    note outcome = predicate_outcome [OF Some, of v]
    show ?thesis
    proof (cases "predicate_raises key v")
      case True
      with outcome Some show ?thesis by (auto simp: item)
    next
      case False
      with outcome obtain b where b: "is_valid v = Inr b" by blast
      show ?thesis
      proof (cases b)
        case True
        with Some b False retained show ?thesis by (simp add: item accepted_def)
      next
        case no: False
        with Some b False dropped show ?thesis
          by (simp add: item delitem_present [OF d] accepted_def)
      qed
    qed
  qed
qed

lemma map_of_filter_distinct:
  "distinct (map fst d) \<Longrightarrow>
     map_of (filter P d) k = Some v \<longleftrightarrow> map_of d k = Some v \<and> P (k, v)"
  by (induction d) (auto simp: map_of_eq_None_iff image_iff dest: map_of_SomeD)

text \<open>
  C5, as the code has it. \<^verbatim>\<open>Options(data)\<close> raises exactly when the predicate of some
  entry raises on its value: then \<^verbatim>\<open>TypeError\<close> or \<^verbatim>\<open>AttributeError\<close> leaves the
  constructor. Otherwise nothing is raised and \<^verbatim>\<open>validate\<close> keeps exactly the entries
  whose key is in the registry and whose value its predicate accepts, in their order;
  every other entry is removed. A lookup then returns the surviving explicit value when
  there is one, else the value of the defaults table, else \<^verbatim>\<open>None\<close>.
\<close>

theorem Options_validate_filters:
  assumes keys: "distinct (map fst d)"
  shows "(if list_ex (\<lambda>(k, v). predicate_raises k v) d
          then Options_init g d = Inl TypeError \<or> Options_init g d = Inl AttributeError
          else Options_init g d =
                 Inr \<lparr>data = filter (\<lambda>(k, v). accepted g k v) d,
                      defaults = dict_update Options_defaults (translate_cassette_options g)\<rparr>)
         \<and> (\<forall>opts. Options_init g d = Inr opts \<longrightarrow>
               (\<forall>k v. map_of (data opts) k = Some v \<longleftrightarrow> map_of d k = Some v \<and> accepted g k v)
               \<and> (\<forall>k. Options_getitem opts k =
                     (case map_of (data opts) k of
                        Some v \<Rightarrow> v
                      | None \<Rightarrow> (case map_of (defaults opts) k of Some v \<Rightarrow> v | None \<Rightarrow> PNone))))"
proof -
  from validate_loop_outcome [of "[]" d g] keys
  have v: "(if list_ex (\<lambda>(k, v). predicate_raises k v) d
          then Options_validate g d = Inl TypeError \<or> Options_validate g d = Inl AttributeError
          else Options_validate g d = Inr (filter (\<lambda>(k, v). accepted g k v) d))"
    by (auto simp: Options_validate_def)
  then have i: "(if list_ex (\<lambda>(k, v). predicate_raises k v) d
          then Options_init g d = Inl TypeError \<or> Options_init g d = Inl AttributeError
          else Options_init g d =
                 Inr \<lparr>data = filter (\<lambda>(k, v). accepted g k v) d,
                      defaults = dict_update Options_defaults (translate_cassette_options g)\<rparr>)"
    by (auto simp: Options_init_def)
  have m: "map_of (filter (\<lambda>(k, v). accepted g k v) d) k = Some v
             \<longleftrightarrow> map_of d k = Some v \<and> accepted g k v" for k v
    using map_of_filter_distinct [OF keys, of "\<lambda>(k, v). accepted g k v" k v] by simp
  have kept: "map_of (data opts) k = Some v \<longleftrightarrow> map_of d k = Some v \<and> accepted g k v"
    if "Options_init g d = Inr opts" for opts k v
  proof -
    from that i have "data opts = filter (\<lambda>(k, v). accepted g k v) d"
      by (auto split: if_splits)
    with m show ?thesis by simp
  qed
  have l: "Options_getitem opts k =
             (case map_of (data opts) k of
                Some v \<Rightarrow> v
              | None \<Rightarrow> (case map_of (defaults opts) k of Some v \<Rightarrow> v | None \<Rightarrow> PNone))" for opts k
    by (simp add: Options_getitem_def dict_get_default_def split: option.splits)
  from i kept l show ?thesis by blast
qed

theorem Options_validate_filters_witness:
  "distinct (map fst example_data)
   \<and> \<not> list_ex (\<lambda>(k, v). predicate_raises k v) example_data
   \<and> Options_init example_globals example_data =
       Inr \<lparr>data = [(''match_requests_on'', PList [PStr ''uri'']),
                    (''serialize_with'', PStr ''json'')],
            defaults = dict_update Options_defaults (translate_cassette_options example_globals)\<rparr>
   \<and> distinct (map fst [(''match_requests_on'', PInt 5)])
   \<and> list_ex (\<lambda>(k, v). predicate_raises k v) [(''match_requests_on'', PInt 5)]
   \<and> Options_init example_globals [(''match_requests_on'', PInt 5)] = Inl TypeError"
proof -
  have d: "distinct (map fst example_data)"
    by (simp add: example_data_def)
  have w: "\<not> list_ex (\<lambda>(k, v). predicate_raises k v) example_data"
    by (simp add: example_data_def predicate_raises_def)
  have f: "filter (\<lambda>(k, v). accepted example_globals k v) example_data =
       [(''match_requests_on'', PList [PStr ''uri'']), (''serialize_with'', PStr ''json'')]"
    by (simp add: example_data_def accepted_def valid_options_def validate_record_def
        validate_matchers_def validate_serializer_def validate_placeholders_def example_globals_def)
  have d2: "distinct (map fst [(''match_requests_on'', PInt 5)])"
    by simp
  have w2: "list_ex (\<lambda>(k, v). predicate_raises k v) [(''match_requests_on'', PInt 5)]"
    by (simp add: predicate_raises_def)
  have r: "Options_init example_globals [(''match_requests_on'', PInt 5)] = Inl TypeError"
    by (simp add: Options_init_def Options_validate_def valid_options_def validate_matchers_def)
  from Options_validate_filters [OF d, of example_globals] d w f d2 w2 r
  show ?thesis by simp
qed

text \<open>
  An exception can be raised on invalid input: an integer given for
  \<^verbatim>\<open>match_requests_on\<close> cannot be iterated.
\<close>

theorem Options_init_raises_counterexample:
  "Options_init example_globals [(''match_requests_on'', PInt 5)] = Inl TypeError"
  by (simp add: Options_init_def Options_validate_def valid_options_def validate_matchers_def)

lemma map_of_rev_translated_record:
  "map_of (rev (map (\<lambda>(k, v). if k \<noteq> ''record_mode'' then (k, v) else (''record'', v)) t))
     ''record''
   = (case filter (\<lambda>(k, v). k = ''record_mode'' \<or> k = ''record'') t of
        [] \<Rightarrow> None
      | kv # kvs \<Rightarrow> Some (snd (last (kv # kvs))))"
  by (induction t) (auto simp: map_add_def split: list.splits option.splits if_splits)

text \<open>
  C6, as the code has it. \<^verbatim>\<open>Options\<close> built from the single entry \<^verbatim>\<open>record\<close> with a
  value that is none of the four modes raises nothing and has no explicit entry left.
  Looking \<^verbatim>\<open>record\<close> up returns the default mode, which the process-wide table
  overrides: it is the value of the table's \<^verbatim>\<open>record_mode\<close> or \<^verbatim>\<open>record\<close> entry (of
  the later one when it has both), and \<^verbatim>\<open>once\<close> only when it has neither.
\<close>

theorem Options_invalid_record_falls_back:
  assumes invalid: "v \<notin> {PStr ''all'', PStr ''new_episodes'', PStr ''none'', PStr ''once''}"
  shows "(case Options_init g [(''record'', v)] of
            Inl err \<Rightarrow> False
          | Inr opts \<Rightarrow>
              \<not> Options_contains opts ''record''
              \<and> Options_items opts = []
              \<and> Options_getitem opts ''record'' =
                  (case filter (\<lambda>(k, v). k = ''record_mode'' \<or> k = ''record'')
                          (default_cassette_options g) of
                     [] \<Rightarrow> PStr ''once''
                   | kv # kvs \<Rightarrow> snd (last (kv # kvs))))"
proof -
  from invalid have "validate_record v = Inr False"
    by (cases v) (auto simp: validate_record_def)
  then have i: "Options_init g [(''record'', v)] =
      Inr \<lparr>data = [], defaults = dict_update Options_defaults (translate_cassette_options g)\<rparr>"
    by (simp add: Options_init_def Options_validate_def valid_options_def Options_delitem_def
        dict_del_def)
  have "map_of (dict_update Options_defaults (translate_cassette_options g)) ''record'' =
      Some (case filter (\<lambda>(k, v). k = ''record_mode'' \<or> k = ''record'')
                          (default_cassette_options g) of
                     [] \<Rightarrow> PStr ''once''
                   | kv # kvs \<Rightarrow> snd (last (kv # kvs)))"
    by (simp add: map_of_dict_update translate_cassette_options_def map_of_rev_translated_record
        Options_defaults_def split: list.splits)
  with i show ?thesis
    by (simp add: Options_contains_def Options_items_def Options_getitem_def dict_get_default_def)
qed

theorem Options_invalid_record_falls_back_witness:
  "PStr ''bogus'' \<notin> {PStr ''all'', PStr ''new_episodes'', PStr ''none'', PStr ''once''}
   \<and> Options_init example_globals [(''record'', PStr ''bogus'')] =
       Inr \<lparr>data = [],
            defaults = dict_update Options_defaults (translate_cassette_options example_globals)\<rparr>
   \<and> Options_getitem
        \<lparr>data = [],
         defaults = dict_update Options_defaults (translate_cassette_options example_globals)\<rparr>
        ''record'' = PStr ''once''"
proof -
  have n: "PStr ''bogus'' \<notin> {PStr ''all'', PStr ''new_episodes'', PStr ''none'', PStr ''once''}"
    by simp
  have i: "Options_init example_globals [(''record'', PStr ''bogus'')] =
       Inr \<lparr>data = [],
            defaults = dict_update Options_defaults (translate_cassette_options example_globals)\<rparr>"
    by (simp add: Options_init_def Options_validate_def valid_options_def validate_record_def
        Options_delitem_def dict_del_def)
  from Options_invalid_record_falls_back [OF n, of example_globals] n i
  show ?thesis by (simp add: example_globals_def)
qed

text \<open>
  The lookup does not return \<^verbatim>\<open>once\<close> in every state: after a \<^verbatim>\<open>Betamax\<close> was created
  with \<^verbatim>\<open>record_mode\<close> \<^verbatim>\<open>all\<close> among its default cassette options, it returns \<^verbatim>\<open>all\<close>.
\<close>

theorem Options_invalid_record_counterexample:
  "Options_init
     (snd (Betamax_init example_globals example_session (AdapterRef 0) PNone
             [(''record_mode'', PStr ''all'')]
           :: (request \<times> response, unit) Betamax \<times> globals))
     [(''record'', PStr ''bogus'')]
   = Inr \<lparr>data = [],
          defaults =
            [(''match_requests_on'', PList [PStr ''method'', PStr ''uri'']),
             (''re_record_interval'', PNone),
             (''record'', PStr ''all''),
             (''serialize'', PNone),
             (''serialize_with'', PStr ''json''),
             (''preserve_exact_body_bytes'', PBool False),
             (''placeholders'', PList [])]\<rparr>
   \<and> Options_getitem
        \<lparr>data = [],
         defaults =
            [(''match_requests_on'', PList [PStr ''method'', PStr ''uri'']),
             (''re_record_interval'', PNone),
             (''record'', PStr ''all''),
             (''serialize'', PNone),
             (''serialize_with'', PStr ''json''),
             (''preserve_exact_body_bytes'', PBool False),
             (''placeholders'', PList [])]\<rparr>
        ''record'' = PStr ''all''"
  by (simp add: Options_init_def Options_validate_def valid_options_def validate_record_def
      Options_delitem_def dict_del_def Betamax_init_def Let_def example_globals_def
      Configuration_default_cassette_options_def dict_update_def translate_cassette_options_def
      Options_defaults_def Options_getitem_def dict_get_default_def)

section \<open>The process-wide default options\<close>

lemma map_of_translated_other:
  "k \<noteq> ''record'' \<Longrightarrow> k \<noteq> ''record_mode'' \<Longrightarrow>
   map_of (map (\<lambda>(k, v). if k \<noteq> ''record_mode'' then (k, v) else (''record'', v)) t) k
     = map_of t k"
  by (induction t) auto

lemma filter_record_mode_only:
  "distinct (map fst t) \<Longrightarrow> map_of t ''record_mode'' = Some v \<Longrightarrow> ''record'' \<notin> fst ` set t \<Longrightarrow>
   filter (\<lambda>(k, v). k = ''record_mode'' \<or> k = ''record'') t = [(''record_mode'', v)]"
proof (induction t)
  case Nil
  then show ?case by simp
next
  case (Cons kv t)
  obtain k' v' where kv: "kv = (k', v')" by (cases kv)
  show ?case
  proof (cases "k' = ''record_mode''")
    case True
    with Cons.prems kv have v: "v' = v" and absent: "''record_mode'' \<notin> fst ` set t"
      and norec: "''record'' \<notin> fst ` set t"
      by (auto split: if_splits)
    from absent norec have "filter (\<lambda>(k, v). k = ''record_mode'' \<or> k = ''record'') t = []"
      by (force simp: filter_empty_conv)
    with True v kv show ?thesis by simp
  next
    case False
    with Cons.prems kv have "k' \<noteq> ''record''" by auto
    with False Cons kv show ?thesis by (auto split: if_splits)
  qed
qed

lemma map_of_translated_defaults:
  assumes keys: "distinct (map fst (default_cassette_options g))"
    and entry: "map_of (default_cassette_options g) k = Some v"
    and norecord: "''record'' \<notin> fst ` set (default_cassette_options g)"
  shows "map_of (dict_update Options_defaults (translate_cassette_options g)) (Options_key k) = Some v"
proof (cases "k = ''record_mode''")
  case True
  with filter_record_mode_only [OF keys _ norecord] entry
  have "filter (\<lambda>(k, v). k = ''record_mode'' \<or> k = ''record'') (default_cassette_options g)
          = [(''record_mode'', v)]"
    by simp
  with True show ?thesis
    by (simp add: map_of_dict_update translate_cassette_options_def
        map_of_rev_translated_record Options_key_def)
next
  case False
  from entry norecord have other: "k \<noteq> ''record''"
    by (metis map_of_eq_None_iff option.distinct(1))
  have "map_of (rev (translate_cassette_options g)) k = map_of (default_cassette_options g) k"
    using False other map_of_rev_distinct [OF keys]
    by (simp add: translate_cassette_options_def rev_map map_of_translated_other)
  with False entry show ?thesis
    by (simp add: map_of_dict_update Options_key_def)
qed

lemma seen_laterI:
  assumes keys: "distinct (map fst (default_cassette_options g))"
    and entry: "map_of (default_cassette_options g) k = Some v"
    and norecord: "''record'' \<notin> fst ` set (default_cassette_options g)"
  shows "seen_later g k v"
proof -
  have "map_of (defaults opts) (Options_key k) = Some v
        \<and> (\<not> Options_contains opts (Options_key k) \<longrightarrow> Options_getitem opts (Options_key k) = v)"
    if "Options_init g d = Inr opts" for d opts
  proof -
    from that have "defaults opts = dict_update Options_defaults (translate_cassette_options g)"
      by (auto simp: Options_init_def split: sum.splits)
    with map_of_translated_defaults [OF keys entry norecord]
    show ?thesis
      by (simp add: Options_getitem_def Options_contains_def dict_get_default_def)
  qed
  with entry show ?thesis
    unfolding seen_later_def Configuration_default_cassette_options_def by blast
qed

lemma map_of_dict_update_distinct:
  "distinct (map fst kvs) \<Longrightarrow> map_of kvs k = Some v \<Longrightarrow> map_of (dict_update d kvs) k = Some v"
  by (simp add: map_of_dict_update map_of_rev_distinct)

text \<open>
  C9, as the code has it. Creating a \<^verbatim>\<open>Betamax\<close> with default cassette options merges
  them into the dictionary bound to \<^verbatim>\<open>Cassette.default_cassette_options\<close> (with none
  given, it is left as it is), and assigning \<^verbatim>\<open>preserve_exact_body_bytes\<close> and
  \<^verbatim>\<open>define_cassette_placeholder\<close> edit that dictionary too: its identity stays.
  Assigning \<^verbatim>\<open>default_cassette_options\<close> binds the name to the assigned dictionary
  instead. After any of the four, every entry written is read from the table by a
  \<^verbatim>\<open>Configuration\<close> or \<^verbatim>\<open>Betamax\<close> created afterwards; and when the table then has no
  \<^verbatim>\<open>record\<close> entry, every \<^verbatim>\<open>Options\<close> created afterwards has the entry in its defaults,
  \<^verbatim>\<open>record_mode\<close> under the key \<^verbatim>\<open>record\<close> and every other entry under its own key.
\<close>

theorem default_cassette_options_process_wide:
  assumes table: "distinct (map fst (default_cassette_options g))"
    and given: "distinct (map fst dco)"
    and assigned: "distinct (map fst t)"
  shows "default_cassette_options_id (snd (Betamax_init g s r dir dco))
           = default_cassette_options_id g
         \<and> default_cassette_options (snd (Betamax_init g s r dir dco))
           = dict_update (default_cassette_options g) dco
         \<and> default_cassette_options (snd (Betamax_init g s r dir [])) = default_cassette_options g
         \<and> (''record'' \<notin> fst ` set (dict_update (default_cassette_options g) dco) \<longrightarrow>
              (\<forall>k v. map_of dco k = Some v \<longrightarrow> seen_later (snd (Betamax_init g s r dir dco)) k v))
         \<and> (case Configuration_setattr ''default_cassette_options'' oid (PDict t) g of
               None \<Rightarrow> False
             | Some g' \<Rightarrow>
                 default_cassette_options_id g' = oid
                 \<and> default_cassette_options g' = t
                 \<and> (''record'' \<notin> fst ` set t \<longrightarrow>
                      (\<forall>k v. map_of t k = Some v \<longrightarrow> seen_later g' k v)))
         \<and> (case Configuration_setattr ''preserve_exact_body_bytes'' oid x g of
               None \<Rightarrow> False
             | Some g' \<Rightarrow>
                 default_cassette_options_id g' = default_cassette_options_id g
                 \<and> (''record'' \<notin> fst ` set (default_cassette_options g) \<longrightarrow>
                      seen_later g' ''preserve_exact_body_bytes'' (PBool True)))
         \<and> (\<forall>ps. map_of (default_cassette_options g) ''placeholders'' = Some (PList ps) \<longrightarrow>
               (case define_cassette_placeholder p rp g of
                  Inl err \<Rightarrow> False
                | Inr g' \<Rightarrow>
                    default_cassette_options_id g' = default_cassette_options_id g
                    \<and> (''record'' \<notin> fst ` set (default_cassette_options g) \<longrightarrow>
                         seen_later g' ''placeholders''
                           (PList (ps @ [PDict [(''placeholder'', p), (''replace'', rp)]])))))"
proof -
  have b: "default_cassette_options (snd (Betamax_init g s r dir dco'))
           = dict_update (default_cassette_options g) dco'" for dco'
    by (simp add: Betamax_init_def Let_def Configuration_default_cassette_options_def
        cassette_library_dir_setter_def)
  have bi: "default_cassette_options_id (snd (Betamax_init g s r dir dco))
           = default_cassette_options_id g"
    by (simp add: Betamax_init_def Let_def cassette_library_dir_setter_def)
  have b0: "default_cassette_options (snd (Betamax_init g s r dir [])) = default_cassette_options g"
    by (simp add: b dict_update_def)
  have c1: "seen_later (snd (Betamax_init g s r dir dco)) k v"
    if "''record'' \<notin> fst ` set (dict_update (default_cassette_options g) dco)"
      and "map_of dco k = Some v" for k v
    by (rule seen_laterI)
      (simp_all add: b distinct_dict_update [OF table]
        map_of_dict_update_distinct [OF given that(2)] that(1))
  have c2: "(case Configuration_setattr ''default_cassette_options'' oid (PDict t) g of
               None \<Rightarrow> False
             | Some g' \<Rightarrow>
                 default_cassette_options_id g' = oid
                 \<and> default_cassette_options g' = t
                 \<and> (''record'' \<notin> fst ` set t \<longrightarrow>
                      (\<forall>k v. map_of t k = Some v \<longrightarrow> seen_later g' k v)))"
    using seen_laterI [of "g\<lparr>default_cassette_options := t, default_cassette_options_id := oid\<rparr>"]
      assigned
    by (simp add: Configuration_setattr_def default_cassette_options_setter_def)
  have c3: "(case Configuration_setattr ''preserve_exact_body_bytes'' oid x g of
               None \<Rightarrow> False
             | Some g' \<Rightarrow>
                 default_cassette_options_id g' = default_cassette_options_id g
                 \<and> (''record'' \<notin> fst ` set (default_cassette_options g) \<longrightarrow>
                      seen_later g' ''preserve_exact_body_bytes'' (PBool True)))"
    using seen_laterI [of "g\<lparr>default_cassette_options :=
        dict_set (default_cassette_options g) ''preserve_exact_body_bytes'' (PBool True)\<rparr>"
        "''preserve_exact_body_bytes''" "PBool True"]
    by (simp add: Configuration_setattr_def Configuration_default_cassette_options_def
        distinct_dict_set [OF table] map_of_dict_set keys_dict_set)
  have c4: "(case define_cassette_placeholder p rp g of
                  Inl err \<Rightarrow> False
                | Inr g' \<Rightarrow>
                    default_cassette_options_id g' = default_cassette_options_id g
                    \<and> (''record'' \<notin> fst ` set (default_cassette_options g) \<longrightarrow>
                         seen_later g' ''placeholders''
                           (PList (ps @ [PDict [(''placeholder'', p), (''replace'', rp)]]))))"
    if "map_of (default_cassette_options g) ''placeholders'' = Some (PList ps)" for ps
    using seen_laterI [of "g\<lparr>default_cassette_options :=
        dict_set (default_cassette_options g) ''placeholders''
          (PList (ps @ [PDict [(''placeholder'', p), (''replace'', rp)]]))\<rparr>"
        "''placeholders''" "PList (ps @ [PDict [(''placeholder'', p), (''replace'', rp)]])"] that
    by (simp add: define_cassette_placeholder_def Configuration_default_cassette_options_def
        distinct_dict_set [OF table] map_of_dict_set keys_dict_set)
  from bi b b0 c1 c2 c3 c4 show ?thesis by blast
qed

theorem default_cassette_options_process_wide_witness:
  "distinct (map fst (default_cassette_options example_globals))
   \<and> distinct (map fst [(''re_record_interval'', PInt 1000)])
   \<and> ''record'' \<notin> fst ` set (default_cassette_options example_globals_after)
   \<and> default_cassette_options_id example_globals_after
       = default_cassette_options_id example_globals
   \<and> map_of (Configuration_default_cassette_options example_globals_after) ''re_record_interval''
       = Some (PInt 1000)
   \<and> Options_init example_globals_after [] =
       Inr \<lparr>data = [],
            defaults = dict_update Options_defaults (translate_cassette_options example_globals_after)\<rparr>
   \<and> Options_getitem
        \<lparr>data = [],
         defaults = dict_update Options_defaults (translate_cassette_options example_globals_after)\<rparr>
        ''re_record_interval'' = PInt 1000"
proof -
  let ?opts = "\<lparr>data = [],
         defaults = dict_update Options_defaults (translate_cassette_options example_globals_after)\<rparr>"
  have d: "distinct (map fst (default_cassette_options example_globals))"
    by (simp add: example_globals_def)
  have d': "distinct (map fst [(''re_record_interval'', PInt 1000)])"
    by simp
  have e: "distinct (map fst ([] :: pyval dict))"
    by simp
  have i: "Options_init example_globals_after [] = Inr ?opts"
    by (simp add: Options_init_def Options_validate_def)
  have n: "\<not> Options_contains ?opts (Options_key ''re_record_interval'')"
    by (simp add: Options_contains_def)
  note t = default_cassette_options_process_wide
             [OF d d' e, of example_session "AdapterRef 0" PNone]
  from t have id: "default_cassette_options_id example_globals_after
       = default_cassette_options_id example_globals"
    and tab: "default_cassette_options example_globals_after
       = dict_update (default_cassette_options example_globals) [(''re_record_interval'', PInt 1000)]"
    unfolding example_globals_after_def by blast+
  have nr: "''record'' \<notin> fst ` set (default_cassette_options example_globals_after)"
    by (simp add: tab example_globals_def dict_update_def)
  from t nr have "\<forall>k v. map_of [(''re_record_interval'', PInt 1000)] k = Some v \<longrightarrow>
           seen_later example_globals_after k v"
    unfolding example_globals_after_def tab [unfolded example_globals_after_def, symmetric]
    by blast
  then have "seen_later example_globals_after ''re_record_interval'' (PInt 1000)"
    by simp
  with i n have "map_of (Configuration_default_cassette_options example_globals_after)
        ''re_record_interval'' = Some (PInt 1000)
      \<and> Options_getitem ?opts (Options_key ''re_record_interval'') = PInt 1000"
    unfolding seen_later_def by (simp add: Options_key_def)
  with d d' i id nr show ?thesis by (simp add: Options_key_def)
qed

text \<open>
  Assigning \<^verbatim>\<open>default_cassette_options\<close> does not edit the table in place: the name is
  bound to another object. And a change is not seen by every later \<^verbatim>\<open>Options\<close>: in a
  table that holds a \<^verbatim>\<open>record\<close> entry after its \<^verbatim>\<open>record_mode\<close> entry, writing
  \<^verbatim>\<open>record_mode\<close> changes nothing an \<^verbatim>\<open>Options\<close> holds or returns.
\<close>

theorem default_cassette_options_process_wide_counterexample:
  "default_cassette_options_id example_globals = 0
   \<and> map_option default_cassette_options_id
        (Configuration_setattr ''default_cassette_options'' 1
           (PDict [(''record_mode'', PStr ''all'')]) example_globals) = Some 1
   \<and> map_of (Configuration_default_cassette_options masked_globals) ''record_mode''
       = Some (PStr ''all'')
   \<and> Options_init masked_globals [] =
       Inr \<lparr>data = [],
            defaults =
              [(''match_requests_on'', PList [PStr ''method'', PStr ''uri'']),
               (''re_record_interval'', PNone),
               (''record'', PStr ''none''),
               (''serialize'', PNone),
               (''serialize_with'', PStr ''json''),
               (''preserve_exact_body_bytes'', PBool False),
               (''placeholders'', PList [])]\<rparr>
   \<and> Options_getitem
        \<lparr>data = [],
         defaults =
              [(''match_requests_on'', PList [PStr ''method'', PStr ''uri'']),
               (''re_record_interval'', PNone),
               (''record'', PStr ''none''),
               (''serialize'', PNone),
               (''serialize_with'', PStr ''json''),
               (''preserve_exact_body_bytes'', PBool False),
               (''placeholders'', PList [])]\<rparr>
        ''record'' = PStr ''none''"
  by (simp add: masked_globals_def Options_init_def Options_validate_def Betamax_init_def Let_def
      example_globals_def Configuration_default_cassette_options_def dict_update_def
      translate_cassette_options_def Options_defaults_def Options_getitem_def
      dict_get_default_def Configuration_setattr_def default_cassette_options_setter_def)

end
